theory Spec2Isabelle
  imports Complex_Main
begin

section \<open>The commerce services of mtc-platform, embedded in HOL\<close>

text \<open>
  The services (\<open>CartService\<close>, \<open>OrderService\<close>, \<open>PaymentService\<close>,
  \<open>DigitalDownloadService\<close>, \<open>ProductService\<close>) are classes whose methods run SQL
  statements against a D1 database. A table is modelled as the list of its rows, a
  row as a record with one field per column, and a method as a function from the
  database to the database (and a result). JavaScript's \<open>number\<close> is \<open>real\<close> for
  money and quantities (no rounding is modelled), \<open>int\<close> for the Unix seconds
  \<open>Math.floor(Date.now() / 1000)\<close> and for stock. The download count of a link is a
  \<open>nat\<close>: it is written as 0 and by \<open>download_count + 1\<close> only; the limit it is
  compared with is a \<open>number\<close> the caller gives, so a \<open>real\<close>.
  What a method reads from its environment (the clock, the identifier it generates from
  the clock and \<open>Math.random()\<close>) is an argument of the model.
\<close>

subsection \<open>Thrown values\<close>

text \<open>
  Every \<open>throw\<close> of the services throws \<open>new Error(message)\<close>. A payment gateway is
  foreign code and may throw any value; \<open>NonError\<close> stands for a thrown value that is
  not an instance of \<open>Error\<close>.
\<close>

datatype thrown = Error string | NonError string

subsection \<open>SQL statements on a table\<close>

text \<open>\<open>SELECT * FROM t WHERE c ... .first()\<close>: the first row that matches, or null.\<close>

definition sql_first :: "('r \<Rightarrow> bool) \<Rightarrow> 'r list \<Rightarrow> 'r option" where
  "sql_first c rows = find c rows"

text \<open>\<open>INSERT INTO t VALUES (...)\<close>: one more row.\<close>

definition sql_insert :: "'r \<Rightarrow> 'r list \<Rightarrow> 'r list" where
  "sql_insert r rows = rows @ [r]"

text \<open>\<open>UPDATE t SET ... WHERE c\<close>: every matching row is rewritten, the others stay.\<close>

definition sql_update :: "('r \<Rightarrow> bool) \<Rightarrow> ('r \<Rightarrow> 'r) \<Rightarrow> 'r list \<Rightarrow> 'r list" where
  "sql_update c f rows = map (\<lambda>r. if c r then f r else r) rows"

text \<open>\<open>DELETE FROM t WHERE c\<close>: every matching row goes.\<close>

definition sql_delete :: "('r \<Rightarrow> bool) \<Rightarrow> 'r list \<Rightarrow> 'r list" where
  "sql_delete c rows = filter (\<lambda>r. \<not> c r) rows"

subsection \<open>ProductService: stock\<close>

datatype product_type = Physical | Digital

record Product =
  prod_id :: string
  prod_storeId :: string
  prod_name :: string
  prod_slug :: string
  prod_description :: "string option"
  prod_type :: product_type
  prod_sku :: "string option"
  prod_price :: real
  prod_cost :: "real option"
  prod_stockQuantity :: int
  prod_weight :: "real option"
  prod_dimensions :: "string option"
  prod_imageUrl :: "string option"
  prod_galleryUrls :: "string list option"
  prod_isActive :: bool
  prod_isFeatured :: bool
  prod_metadata :: "string option"
  prod_createdAt :: int
  prod_updatedAt :: int

record product_db =
  products :: "Product list"

text \<open>\<open>UPDATE products SET stock_quantity = ?, updated_at = ? WHERE id = ?\<close>\<close>

definition updateStock :: "string \<Rightarrow> int \<Rightarrow> int \<Rightarrow> product_db \<Rightarrow> product_db" where
  "updateStock pid quantity now db =
     db\<lparr>products := sql_update (\<lambda>p. prod_id p = pid)
           (\<lambda>p. p\<lparr>prod_stockQuantity := quantity, prod_updatedAt := now\<rparr>) (products db)\<rparr>"

text \<open>
  \<open>UPDATE products SET stock_quantity = MAX(0, stock_quantity - ?), updated_at = ?
  WHERE id = ?\<close>. The method has no \<open>throw\<close>: it returns nothing and cannot fail.
\<close>

definition decreaseStock :: "string \<Rightarrow> int \<Rightarrow> int \<Rightarrow> product_db \<Rightarrow> product_db" where
  "decreaseStock pid quantity now db =
     db\<lparr>products := sql_update (\<lambda>p. prod_id p = pid)
           (\<lambda>p. p\<lparr>prod_stockQuantity := max 0 (prod_stockQuantity p - quantity),
                  prod_updatedAt := now\<rparr>) (products db)\<rparr>"

text \<open>A sequence of \<open>decreaseStock\<close> calls, each with its product, quantity and clock.\<close>

fun decreaseStock_calls :: "(string \<times> int \<times> int) list \<Rightarrow> product_db \<Rightarrow> product_db" where
  "decreaseStock_calls [] db = db"
| "decreaseStock_calls ((pid, quantity, now) # calls) db =
     decreaseStock_calls calls (decreaseStock pid quantity now db)"

text \<open>The stock of product \<open>pid\<close>, as \<open>getProduct\<close> reads it (the first row with that id).\<close>

definition stock_of :: "product_db \<Rightarrow> string \<Rightarrow> int option" where
  "stock_of db pid = map_option prod_stockQuantity (sql_first (\<lambda>p. prod_id p = pid) (products db))"

subsection \<open>OrderService\<close>

datatype OrderStatus =
  OrderPending | OrderPaid | OrderProcessing | OrderShipped | OrderDelivered
  | OrderCancelled | OrderRefunded

datatype OrderPaymentStatus = Unpaid | PaidUp | PaymentWasRefunded | PaymentDidFail

datatype ShippingStatus = Unshipped | ShippedOut | DeliveredTo | Returned

text \<open>
  A row of \<open>orders\<close>, which \<open>mapRowToOrder\<close> renames field by field into an \<open>Order\<close>.
  The addresses and the metadata are JSON text in the row.
\<close>

record Order =
  order_id :: string
  order_storeId :: string
  order_orderNumber :: string
  order_userId :: "string option"
  order_email :: string
  order_status :: OrderStatus
  order_paymentStatus :: OrderPaymentStatus
  order_shippingStatus :: ShippingStatus
  order_subtotal :: real
  order_tax :: real
  order_shipping :: real
  order_discount :: real
  order_total :: real
  order_currency :: string
  order_paymentMethod :: "string option"
  order_paymentId :: "string option"
  order_shippingAddress :: "string option"
  order_billingAddress :: "string option"
  order_notes :: "string option"
  order_metadata :: "string option"
  order_createdAt :: int
  order_updatedAt :: int

text \<open>\<open>UpdateOrderInput\<close>: every field is optional; \<open>None\<close> is a field left out.\<close>

record UpdateOrderInput =
  upd_status :: "OrderStatus option"
  upd_paymentStatus :: "OrderPaymentStatus option"
  upd_shippingStatus :: "ShippingStatus option"
  upd_notes :: "string option"
  upd_metadata :: "string option"

record order_db =
  orders :: "Order list"

text \<open>\<open>x || null\<close> on an optional string: the empty string is falsy.\<close>

definition or_null :: "string option \<Rightarrow> string option" where
  "or_null x = (case x of None \<Rightarrow> None | Some s \<Rightarrow> if s = [] then None else Some s)"

definition getOrder :: "string \<Rightarrow> order_db \<Rightarrow> Order option" where
  "getOrder oid db = sql_first (\<lambda>r. order_id r = oid) (orders db)"

text \<open>
  \<open>updateOrder\<close>: the object \<open>{...order, ...input, id, storeId, orderNumber, email,
  createdAt, updatedAt: now}\<close> is built, six of its fields are written by the
  \<open>UPDATE\<close>, and the object is returned. A missing order throws before any write.
\<close>

definition updateOrder ::
  "string \<Rightarrow> UpdateOrderInput \<Rightarrow> int \<Rightarrow> order_db \<Rightarrow> (thrown + Order) \<times> order_db" where
  "updateOrder oid input now db =
     (case getOrder oid db of
        None \<Rightarrow> (Inl (Error (''Order not found: '' @ oid)), db)
      | Some order \<Rightarrow>
          (let updated = order
                 \<lparr>order_status := (case upd_status input of Some s \<Rightarrow> s | None \<Rightarrow> order_status order),
                  order_paymentStatus :=
                    (case upd_paymentStatus input of Some s \<Rightarrow> s | None \<Rightarrow> order_paymentStatus order),
                  order_shippingStatus :=
                    (case upd_shippingStatus input of Some s \<Rightarrow> s | None \<Rightarrow> order_shippingStatus order),
                  order_notes := (case upd_notes input of Some n \<Rightarrow> Some n | None \<Rightarrow> order_notes order),
                  order_metadata :=
                    (case upd_metadata input of Some m \<Rightarrow> Some m | None \<Rightarrow> order_metadata order),
                  order_updatedAt := now\<rparr>
           in (Inr updated,
               db\<lparr>orders := sql_update (\<lambda>r. order_id r = oid)
                     (\<lambda>r. r\<lparr>order_status := order_status updated,
                            order_paymentStatus := order_paymentStatus updated,
                            order_shippingStatus := order_shippingStatus updated,
                            order_notes := or_null (order_notes updated),
                            order_metadata := order_metadata updated,
                            order_updatedAt := order_updatedAt updated\<rparr>) (orders db)\<rparr>)))"

text \<open>\<open>UPDATE orders SET status = ?, updated_at = ? WHERE id = ?\<close>\<close>

definition updateOrderStatus :: "string \<Rightarrow> OrderStatus \<Rightarrow> int \<Rightarrow> order_db \<Rightarrow> order_db" where
  "updateOrderStatus oid status now db =
     db\<lparr>orders := sql_update (\<lambda>r. order_id r = oid)
           (\<lambda>r. r\<lparr>order_status := status, order_updatedAt := now\<rparr>) (orders db)\<rparr>"

text \<open>\<open>UPDATE orders SET payment_status = ?, updated_at = ? WHERE id = ?\<close>\<close>

definition updatePaymentStatus ::
  "string \<Rightarrow> OrderPaymentStatus \<Rightarrow> int \<Rightarrow> order_db \<Rightarrow> order_db" where
  "updatePaymentStatus oid status now db =
     db\<lparr>orders := sql_update (\<lambda>r. order_id r = oid)
           (\<lambda>r. r\<lparr>order_paymentStatus := status, order_updatedAt := now\<rparr>) (orders db)\<rparr>"

text \<open>\<open>UPDATE orders SET shipping_status = ?, updated_at = ? WHERE id = ?\<close>\<close>

definition updateShippingStatus ::
  "string \<Rightarrow> ShippingStatus \<Rightarrow> int \<Rightarrow> order_db \<Rightarrow> order_db" where
  "updateShippingStatus oid status now db =
     db\<lparr>orders := sql_update (\<lambda>r. order_id r = oid)
           (\<lambda>r. r\<lparr>order_shippingStatus := status, order_updatedAt := now\<rparr>) (orders db)\<rparr>"

definition cancelOrder :: "string \<Rightarrow> int \<Rightarrow> order_db \<Rightarrow> order_db" where
  "cancelOrder oid now db = updateOrderStatus oid OrderCancelled now db"

text \<open>
  \<open>markAsPaid\<close>: with a truthy \<open>paymentId\<close> (present and not empty) the statement also
  sets \<open>payment_id\<close>.
\<close>

definition markAsPaid :: "string \<Rightarrow> string option \<Rightarrow> int \<Rightarrow> order_db \<Rightarrow> order_db" where
  "markAsPaid oid paymentId now db =
     (case or_null paymentId of
        Some pid \<Rightarrow>
          db\<lparr>orders := sql_update (\<lambda>r. order_id r = oid)
                (\<lambda>r. r\<lparr>order_paymentStatus := PaidUp, order_status := OrderProcessing,
                       order_paymentId := Some pid, order_updatedAt := now\<rparr>) (orders db)\<rparr>
      | None \<Rightarrow>
          db\<lparr>orders := sql_update (\<lambda>r. order_id r = oid)
                (\<lambda>r. r\<lparr>order_paymentStatus := PaidUp, order_status := OrderProcessing,
                       order_updatedAt := now\<rparr>) (orders db)\<rparr>)"

text \<open>
  The amounts frozen at creation, and a row with every field a status method may write
  blanked out: two rows with the same \<open>immutable_part\<close> differ in those fields only.
\<close>

definition amounts :: "Order \<Rightarrow> real \<times> real \<times> real \<times> real \<times> real" where
  "amounts r = (order_subtotal r, order_tax r, order_shipping r, order_discount r, order_total r)"

definition immutable_part :: "Order \<Rightarrow> Order" where
  "immutable_part r =
     r\<lparr>order_status := OrderPending, order_paymentStatus := Unpaid,
       order_shippingStatus := Unshipped, order_notes := None, order_metadata := None,
       order_paymentId := None, order_updatedAt := 0\<rparr>"

text \<open>The status methods as calls, each at its clock reading, and a sequence of them.\<close>

datatype order_call =
  UpdateOrder string UpdateOrderInput
  | UpdateOrderStatus string OrderStatus
  | UpdatePaymentStatus string OrderPaymentStatus
  | UpdateShippingStatus string ShippingStatus
  | CancelOrder string
  | MarkAsPaid string "string option"

fun run_order_call :: "order_call \<Rightarrow> int \<Rightarrow> order_db \<Rightarrow> order_db" where
  "run_order_call (UpdateOrder oid input) now db = snd (updateOrder oid input now db)"
| "run_order_call (UpdateOrderStatus oid status) now db = updateOrderStatus oid status now db"
| "run_order_call (UpdatePaymentStatus oid status) now db = updatePaymentStatus oid status now db"
| "run_order_call (UpdateShippingStatus oid status) now db = updateShippingStatus oid status now db"
| "run_order_call (CancelOrder oid) now db = cancelOrder oid now db"
| "run_order_call (MarkAsPaid oid paymentId) now db = markAsPaid oid paymentId now db"

fun run_order_calls :: "(order_call \<times> int) list \<Rightarrow> order_db \<Rightarrow> order_db" where
  "run_order_calls [] db = db"
| "run_order_calls ((call, now) # calls) db = run_order_calls calls (run_order_call call now db)"

subsection \<open>PaymentService\<close>

datatype PaymentGateway = Stripe | Paypal | Square | Custom

text \<open>The string of a gateway type, as the template literal of an error message prints it.\<close>

fun gateway_name :: "PaymentGateway \<Rightarrow> string" where
  "gateway_name Stripe = ''stripe''"
| "gateway_name Paypal = ''paypal''"
| "gateway_name Square = ''square''"
| "gateway_name Custom = ''custom''"

datatype PaymentStatus =
  PaymentPending | PaymentProcessing | PaymentCompleted | PaymentFailed | PaymentRefunded

record Payment =
  pay_id :: string
  pay_orderId :: string
  pay_paymentMethodId :: string
  pay_amount :: real
  pay_currency :: string
  pay_status :: PaymentStatus
  pay_transactionId :: "string option"
  pay_errorMessage :: "string option"
  pay_metadata :: "string option"
  pay_createdAt :: int
  pay_updatedAt :: int

datatype RefundStatus = RefundPending | RefundCompleted | RefundFailed

record Refund =
  ref_id :: string
  ref_orderId :: string
  ref_paymentId :: "string option"
  ref_amount :: real
  ref_reason :: "string option"
  ref_status :: RefundStatus
  ref_transactionId :: "string option"
  ref_createdAt :: int
  ref_updatedAt :: int

record CreatePaymentInput =
  cpi_orderId :: string
  cpi_paymentMethodId :: string
  cpi_amount :: real
  cpi_currency :: "string option"
  cpi_metadata :: "string option"

record ProcessPaymentInput =
  ppi_paymentMethodType :: PaymentGateway
  ppi_amount :: real
  ppi_currency :: string
  ppi_orderId :: string
  ppi_metadata :: "string option"

text \<open>
  \<open>PaymentGatewayHandler\<close>: what a gateway is given, and its two methods. A method
  resolves to \<open>{ transactionId }\<close> (\<open>Inr\<close>) or throws (\<open>Inl\<close>).
\<close>

record GatewayProcessInput =
  gp_amount :: real
  gp_currency :: string
  gp_orderId :: string
  gp_metadata :: "string option"

record GatewayRefundInput =
  gr_transactionId :: string
  gr_amount :: real
  gr_currency :: string

record PaymentGatewayHandler =
  gw_process :: "GatewayProcessInput \<Rightarrow> thrown + string"
  gw_refund :: "GatewayRefundInput \<Rightarrow> thrown + string"

text \<open>The service's private \<open>gateways\<close> map, and \<open>registerGateway\<close>.\<close>

type_synonym gateways = "PaymentGateway \<rightharpoonup> PaymentGatewayHandler"

definition registerGateway :: "PaymentGateway \<Rightarrow> PaymentGatewayHandler \<Rightarrow> gateways \<Rightarrow> gateways" where
  "registerGateway type handler gws = gws(type \<mapsto> handler)"

record payment_db =
  payments :: "Payment list"
  refunds :: "Refund list"

text \<open>
  \<open>createPayment\<close>: the payment object, status \<open>'pending'\<close>, and the \<open>INSERT\<close> of its
  row (\<open>transaction_id\<close> and \<open>error_message\<close> are not among the inserted columns).
\<close>

definition createPayment ::
  "CreatePaymentInput \<Rightarrow> string \<Rightarrow> int \<Rightarrow> payment_db \<Rightarrow> Payment \<times> payment_db" where
  "createPayment input new_id now db =
     (let payment =
            \<lparr>pay_id = new_id, pay_orderId = cpi_orderId input,
             pay_paymentMethodId = cpi_paymentMethodId input, pay_amount = cpi_amount input,
             pay_currency = (case or_null (cpi_currency input) of Some c \<Rightarrow> c | None \<Rightarrow> ''USD''),
             pay_status = PaymentPending, pay_transactionId = None, pay_errorMessage = None,
             pay_metadata = cpi_metadata input, pay_createdAt = now, pay_updatedAt = now\<rparr>
      in (payment, db\<lparr>payments := sql_insert payment (payments db)\<rparr>))"

definition getPayment :: "string \<Rightarrow> payment_db \<Rightarrow> Payment option" where
  "getPayment pid db = sql_first (\<lambda>r. pay_id r = pid) (payments db)"

text \<open>\<open>error instanceof Error ? error.message : 'Unknown error'\<close>\<close>

fun error_message :: "thrown \<Rightarrow> string" where
  "error_message (Error m) = m"
| "error_message (NonError v) = ''Unknown error''"

text \<open>
  \<open>processPayment\<close>. The clock is read once in \<open>createPayment\<close> (\<open>t0\<close>), once for
  the \<open>UPDATE\<close> (\<open>t1\<close>) and once for the returned object (\<open>t2\<close>). The gateway lookup
  stands between the insert and the \<open>try\<close> block.
\<close>

definition processPayment ::
  "gateways \<Rightarrow> ProcessPaymentInput \<Rightarrow> string \<Rightarrow> int \<Rightarrow> int \<Rightarrow> int \<Rightarrow> payment_db \<Rightarrow>
   (thrown + Payment) \<times> payment_db" where
  "processPayment gws input new_id t0 t1 t2 db =
     (let (payment, db1) =
            createPayment
              \<lparr>cpi_orderId = ppi_orderId input, cpi_paymentMethodId = [],
               cpi_amount = ppi_amount input, cpi_currency = Some (ppi_currency input),
               cpi_metadata = ppi_metadata input\<rparr> new_id t0 db
      in case gws (ppi_paymentMethodType input) of
           None \<Rightarrow>
             (Inl (Error (''Payment gateway not registered: ''
                     @ gateway_name (ppi_paymentMethodType input))), db1)
         | Some gateway \<Rightarrow>
             (case gw_process gateway
                     \<lparr>gp_amount = ppi_amount input, gp_currency = ppi_currency input,
                      gp_orderId = ppi_orderId input, gp_metadata = ppi_metadata input\<rparr> of
                Inr transactionId \<Rightarrow>
                  (Inr (payment\<lparr>pay_status := PaymentCompleted,
                                pay_transactionId := Some transactionId, pay_updatedAt := t2\<rparr>),
                   db1\<lparr>payments := sql_update (\<lambda>r. pay_id r = pay_id payment)
                          (\<lambda>r. r\<lparr>pay_status := PaymentCompleted,
                                 pay_transactionId := Some transactionId, pay_updatedAt := t1\<rparr>)
                          (payments db1)\<rparr>)
              | Inl error \<Rightarrow>
                  (Inl error,
                   db1\<lparr>payments := sql_update (\<lambda>r. pay_id r = pay_id payment)
                          (\<lambda>r. r\<lparr>pay_status := PaymentFailed,
                                 pay_errorMessage := Some (error_message error),
                                 pay_updatedAt := t1\<rparr>)
                          (payments db1)\<rparr>)))"

text \<open>\<open>createRefund\<close>: the refund object, status \<open>'pending'\<close>, and the \<open>INSERT\<close> of its row.\<close>

definition createRefund ::
  "string \<Rightarrow> string \<Rightarrow> real \<Rightarrow> string option \<Rightarrow> string \<Rightarrow> int \<Rightarrow> payment_db \<Rightarrow>
   Refund \<times> payment_db" where
  "createRefund orderId paymentId amount reason new_id now db =
     (let refund =
            \<lparr>ref_id = new_id, ref_orderId = orderId, ref_paymentId = Some paymentId,
             ref_amount = amount, ref_reason = reason, ref_status = RefundPending,
             ref_transactionId = None, ref_createdAt = now, ref_updatedAt = now\<rparr>
      in (refund, db\<lparr>refunds := sql_insert (refund\<lparr>ref_reason := or_null reason\<rparr>) (refunds db)\<rparr>))"

definition getRefund :: "string \<Rightarrow> payment_db \<Rightarrow> Refund option" where
  "getRefund rid db = sql_first (\<lambda>r. ref_id r = rid) (refunds db)"

text \<open>
  \<open>processRefund\<close>. The gateway is \<open>this.gateways.get('stripe')\<close>; the transaction id
  handed to it is \<open>payment.transactionId || ''\<close>. The clock is read for the \<open>UPDATE\<close>
  (\<open>t1\<close>) and, on success, for the returned object (\<open>t2\<close>).
\<close>

definition processRefund ::
  "gateways \<Rightarrow> string \<Rightarrow> int \<Rightarrow> int \<Rightarrow> payment_db \<Rightarrow> (thrown + Refund) \<times> payment_db" where
  "processRefund gws refundId t1 t2 db =
     (case getRefund refundId db of
        None \<Rightarrow> (Inl (Error (''Refund not found: '' @ refundId)), db)
      | Some refund \<Rightarrow>
          (case or_null (ref_paymentId refund) of
             None \<Rightarrow> (Inl (Error ''Cannot refund payment without payment ID''), db)
           | Some paymentId \<Rightarrow>
               (case getPayment paymentId db of
                  None \<Rightarrow> (Inl (Error (''Payment not found: '' @ paymentId)), db)
                | Some payment \<Rightarrow>
                    (case gws Stripe of
                       None \<Rightarrow> (Inl (Error ''Payment gateway not available for refunds''), db)
                     | Some gateway \<Rightarrow>
                         (case gw_refund gateway
                                 \<lparr>gr_transactionId =
                                    (case or_null (pay_transactionId payment) of
                                       Some t \<Rightarrow> t | None \<Rightarrow> []),
                                  gr_amount = ref_amount refund,
                                  gr_currency = pay_currency payment\<rparr> of
                            Inr transactionId \<Rightarrow>
                              (Inr (refund\<lparr>ref_status := RefundCompleted,
                                          ref_transactionId := Some transactionId,
                                          ref_updatedAt := t2\<rparr>),
                               db\<lparr>refunds := sql_update (\<lambda>r. ref_id r = refundId)
                                     (\<lambda>r. r\<lparr>ref_status := RefundCompleted,
                                            ref_transactionId := Some transactionId,
                                            ref_updatedAt := t1\<rparr>) (refunds db)\<rparr>)
                          | Inl error \<Rightarrow>
                              (Inl error,
                               db\<lparr>refunds := sql_update (\<lambda>r. ref_id r = refundId)
                                     (\<lambda>r. r\<lparr>ref_status := RefundFailed, ref_updatedAt := t1\<rparr>)
                                     (refunds db)\<rparr>))))))"

subsection \<open>DigitalDownloadService\<close>

record DigitalDownload =
  dl_id :: string
  dl_productId :: string
  dl_fileName :: string
  dl_filePath :: string
  dl_fileSize :: "real option"
  dl_mimeType :: "string option"
  dl_r2Key :: string
  dl_downloadLimit :: "real option"
  dl_expirationDays :: "int option"
  dl_createdAt :: int

record DownloadLink =
  link_id :: string
  link_orderItemId :: string
  link_digitalDownloadId :: string
  link_token :: string
  link_downloadCount :: nat
  link_maxDownloads :: "real option"
  link_expiresAt :: "int option"
  link_lastAccessedAt :: "int option"
  link_createdAt :: int

record CreateDigitalDownloadInput =
  cdi_productId :: string
  cdi_fileName :: string
  cdi_filePath :: string
  cdi_fileSize :: "real option"
  cdi_mimeType :: "string option"
  cdi_downloadLimit :: "real option"
  cdi_expirationDays :: "int option"

text \<open>An object of the R2 bucket: its bytes and the HTTP metadata it was put with.\<close>

record R2Object =
  r2_body :: string
  r2_contentType :: string
  r2_contentDisposition :: string

record download_db =
  digital_downloads :: "DigitalDownload list"
  download_links :: "DownloadLink list"
  r2 :: "string \<rightharpoonup> R2Object"

text \<open>\<open>x || null\<close> on an optional number: zero is falsy.\<close>

definition real_or_null :: "real option \<Rightarrow> real option" where
  "real_or_null x = (case x of None \<Rightarrow> None | Some n \<Rightarrow> if n = 0 then None else Some n)"

definition int_or_null :: "int option \<Rightarrow> int option" where
  "int_or_null x = (case x of None \<Rightarrow> None | Some n \<Rightarrow> if n = 0 then None else Some n)"

definition createDigitalDownload ::
  "CreateDigitalDownloadInput \<Rightarrow> string \<Rightarrow> int \<Rightarrow> download_db \<Rightarrow> DigitalDownload \<times> download_db" where
  "createDigitalDownload input new_id now db =
     (let download =
            \<lparr>dl_id = new_id, dl_productId = cdi_productId input, dl_fileName = cdi_fileName input,
             dl_filePath = cdi_filePath input, dl_fileSize = cdi_fileSize input,
             dl_mimeType = cdi_mimeType input,
             dl_r2Key = ''digital-downloads/'' @ new_id @ ''/'' @ cdi_fileName input,
             dl_downloadLimit = cdi_downloadLimit input,
             dl_expirationDays = cdi_expirationDays input, dl_createdAt = now\<rparr>
      in (download,
          db\<lparr>digital_downloads :=
               sql_insert (download\<lparr>dl_fileSize := real_or_null (dl_fileSize download),
                                    dl_mimeType := or_null (dl_mimeType download),
                                    dl_downloadLimit := real_or_null (dl_downloadLimit download),
                                    dl_expirationDays := int_or_null (dl_expirationDays download)\<rparr>)
                 (digital_downloads db)\<rparr>))"

definition getDigitalDownload :: "string \<Rightarrow> download_db \<Rightarrow> DigitalDownload option" where
  "getDigitalDownload did db = sql_first (\<lambda>r. dl_id r = did) (digital_downloads db)"

text \<open>\<open>download.mimeType || 'application/octet-stream'\<close>\<close>

definition mime_or_default :: "string option \<Rightarrow> string" where
  "mime_or_default m = (case or_null m of Some t \<Rightarrow> t | None \<Rightarrow> ''application/octet-stream'')"

definition uploadFile :: "string \<Rightarrow> string \<Rightarrow> download_db \<Rightarrow> (thrown + unit) \<times> download_db" where
  "uploadFile bytes downloadId db =
     (case getDigitalDownload downloadId db of
        None \<Rightarrow> (Inl (Error (''Digital download not found: '' @ downloadId)), db)
      | Some download \<Rightarrow>
          (Inr (),
           db\<lparr>r2 := (r2 db)(dl_r2Key download \<mapsto>
                  \<lparr>r2_body = bytes, r2_contentType = mime_or_default (dl_mimeType download),
                   r2_contentDisposition =
                     ''attachment; filename=\"'' @ dl_fileName download @ ''\"''\<rparr>)\<rparr>))"

text \<open>
  \<open>createDownloadLink\<close>. The token comes from \<open>generateToken()\<close> (random, so an argument
  here). \<open>expirationDays ? now + expirationDays * 24 * 60 * 60 : undefined\<close>: a missing
  and a zero \<open>expirationDays\<close> both give no \<open>expiresAt\<close>. The row binds
  \<open>link.maxDownloads || null\<close> and \<open>link.expiresAt || null\<close>.
\<close>

definition createDownloadLink ::
  "string \<Rightarrow> string \<Rightarrow> real option \<Rightarrow> int option \<Rightarrow> string \<Rightarrow> string \<Rightarrow> int \<Rightarrow> download_db \<Rightarrow>
   DownloadLink \<times> download_db" where
  "createDownloadLink orderItemId digitalDownloadId maxDownloads expirationDays new_id token now db =
     (let expiresAt =
            (case int_or_null expirationDays of
               Some days \<Rightarrow> Some (now + days * 24 * 60 * 60)
             | None \<Rightarrow> None);
          link =
            \<lparr>link_id = new_id, link_orderItemId = orderItemId,
             link_digitalDownloadId = digitalDownloadId, link_token = token,
             link_downloadCount = 0, link_maxDownloads = maxDownloads,
             link_expiresAt = expiresAt, link_lastAccessedAt = None, link_createdAt = now\<rparr>
      in (link,
          db\<lparr>download_links :=
               sql_insert (link\<lparr>link_maxDownloads := real_or_null (link_maxDownloads link),
                                link_expiresAt := int_or_null (link_expiresAt link)\<rparr>)
                 (download_links db)\<rparr>))"

text \<open>
  \<open>getDownloadLinkByToken\<close>: null when no row has the token; the expiry check, then the
  limit check, each guarded by the truthiness of its column.
\<close>

definition getDownloadLinkByToken ::
  "string \<Rightarrow> int \<Rightarrow> download_db \<Rightarrow> thrown + DownloadLink option" where
  "getDownloadLinkByToken token now db =
     (case sql_first (\<lambda>r. link_token r = token) (download_links db) of
        None \<Rightarrow> Inr None
      | Some link \<Rightarrow>
          if (case int_or_null (link_expiresAt link) of Some e \<Rightarrow> e < now | None \<Rightarrow> False)
          then Inl (Error ''Download link has expired'')
          else if (case real_or_null (link_maxDownloads link) of
                     Some m \<Rightarrow> real (link_downloadCount link) \<ge> m | None \<Rightarrow> False)
          then Inl (Error ''Download limit reached'')
          else Inr (Some link))"

text \<open>
  \<open>UPDATE download_links SET download_count = download_count + 1, last_accessed_at = ?
  WHERE id = ?\<close>
\<close>

definition recordDownload :: "string \<Rightarrow> int \<Rightarrow> download_db \<Rightarrow> download_db" where
  "recordDownload linkId now db =
     db\<lparr>download_links := sql_update (\<lambda>r. link_id r = linkId)
           (\<lambda>r. r\<lparr>link_downloadCount := link_downloadCount r + 1,
                  link_lastAccessedAt := Some now\<rparr>) (download_links db)\<rparr>"

record DownloadFile =
  file_body :: string
  file_fileName :: string
  file_mimeType :: string

text \<open>
  \<open>getDownloadFile\<close>: the link is resolved at clock \<open>t0\<close>, the download is recorded at
  clock \<open>t1\<close>, and only then the object is fetched from the bucket.
\<close>

definition getDownloadFile ::
  "string \<Rightarrow> int \<Rightarrow> int \<Rightarrow> download_db \<Rightarrow> (thrown + DownloadFile) \<times> download_db" where
  "getDownloadFile token t0 t1 db =
     (case getDownloadLinkByToken token t0 db of
        Inl error \<Rightarrow> (Inl error, db)
      | Inr None \<Rightarrow> (Inl (Error ''Invalid download link''), db)
      | Inr (Some link) \<Rightarrow>
          (case getDigitalDownload (link_digitalDownloadId link) db of
             None \<Rightarrow> (Inl (Error ''Digital download not found''), db)
           | Some download \<Rightarrow>
               (let db1 = recordDownload (link_id link) t1 db
                in case r2 db1 (dl_r2Key download) of
                     None \<Rightarrow> (Inl (Error ''File not found in storage''), db1)
                   | Some object \<Rightarrow>
                       (Inr \<lparr>file_body = r2_body object, file_fileName = dl_fileName download,
                             file_mimeType = mime_or_default (dl_mimeType download)\<rparr>, db1))))"

definition deleteDigitalDownload :: "string \<Rightarrow> download_db \<Rightarrow> (thrown + unit) \<times> download_db" where
  "deleteDigitalDownload did db =
     (case getDigitalDownload did db of
        None \<Rightarrow> (Inl (Error (''Digital download not found: '' @ did)), db)
      | Some download \<Rightarrow>
          (Inr (),
           db\<lparr>r2 := (r2 db)(dl_r2Key download := None),
              digital_downloads := sql_delete (\<lambda>r. dl_id r = did) (digital_downloads db)\<rparr>))"

definition deleteDownloadLink :: "string \<Rightarrow> download_db \<Rightarrow> download_db" where
  "deleteDownloadLink lid db =
     db\<lparr>download_links := sql_delete (\<lambda>r. link_id r = lid) (download_links db)\<rparr>"

text \<open>\<open>DELETE FROM download_links WHERE expires_at IS NOT NULL AND expires_at < ?\<close>\<close>

definition cleanupExpiredLinks :: "int \<Rightarrow> download_db \<Rightarrow> download_db" where
  "cleanupExpiredLinks now db =
     db\<lparr>download_links :=
          sql_delete (\<lambda>r. case link_expiresAt r of Some e \<Rightarrow> e < now | None \<Rightarrow> False)
            (download_links db)\<rparr>"

text \<open>
  The requests the service answers one after the other. \<open>recordDownload\<close> is not among
  them: it is the counting step of \<open>getDownloadFile\<close>, its only caller.
\<close>

datatype download_op =
  CreateDigitalDownload CreateDigitalDownloadInput string int
  | UploadFile string string
  | CreateDownloadLink string string "real option" "int option" string string int
  | GetDownloadLinkByToken string int
  | GetDownloadFile string int int
  | DeleteDigitalDownload string
  | DeleteDownloadLink string
  | CleanupExpiredLinks int

fun run_download_op :: "download_op \<Rightarrow> download_db \<Rightarrow> download_db" where
  "run_download_op (CreateDigitalDownload input new_id now) db =
     snd (createDigitalDownload input new_id now db)"
| "run_download_op (UploadFile bytes downloadId) db = snd (uploadFile bytes downloadId db)"
| "run_download_op (CreateDownloadLink orderItemId digitalDownloadId maxDownloads expirationDays
       new_id token now) db =
     snd (createDownloadLink orderItemId digitalDownloadId maxDownloads expirationDays
            new_id token now db)"
| "run_download_op (GetDownloadLinkByToken token now) db = db"
| "run_download_op (GetDownloadFile token t0 t1) db = snd (getDownloadFile token t0 t1 db)"
| "run_download_op (DeleteDigitalDownload did) db = snd (deleteDigitalDownload did db)"
| "run_download_op (DeleteDownloadLink lid) db = deleteDownloadLink lid db"
| "run_download_op (CleanupExpiredLinks now) db = cleanupExpiredLinks now db"

fun run_download_ops :: "download_op list \<Rightarrow> download_db \<Rightarrow> download_db" where
  "run_download_ops [] db = db"
| "run_download_ops (op # ops) db = run_download_ops ops (run_download_op op db)"







subsection \<open>CartService\<close>

text \<open>A row of \<open>stores\<close> (StoreService); \<open>recalculateCart\<close> reads its \<open>tax_rate\<close>.\<close>

record Store =
  store_id :: string
  store_name :: string
  store_slug :: string
  store_description :: "string option"
  store_logoUrl :: "string option"
  store_currency :: string
  store_taxRate :: real
  store_shippingEnabled :: bool
  store_isActive :: bool
  store_settings :: string
  store_createdAt :: int
  store_updatedAt :: int

record Cart =
  cart_id :: string
  cart_storeId :: string
  cart_userId :: "string option"
  cart_sessionId :: "string option"
  cart_totalPrice :: real
  cart_totalTax :: real
  cart_totalShipping :: real
  cart_couponCode :: "string option"
  cart_couponDiscount :: real
  cart_expiresAt :: "int option"
  cart_createdAt :: int
  cart_updatedAt :: int

record CartItem =
  item_id :: string
  item_cartId :: string
  item_productId :: string
  item_variantId :: "string option"
  item_quantity :: real
  item_price :: real
  item_createdAt :: int

record CreateCartInput =
  cci_storeId :: string
  cci_userId :: "string option"
  cci_sessionId :: "string option"

record AddCartItemInput =
  aci_productId :: string
  aci_variantId :: "string option"
  aci_quantity :: real
  aci_price :: real

record cart_db =
  carts :: "Cart list"
  cart_items :: "CartItem list"
  stores :: "Store list"

definition createCart :: "CreateCartInput \<Rightarrow> string \<Rightarrow> int \<Rightarrow> cart_db \<Rightarrow> Cart \<times> cart_db" where
  "createCart input new_id now db =
     (let cart =
            \<lparr>cart_id = new_id, cart_storeId = cci_storeId input, cart_userId = cci_userId input,
             cart_sessionId = cci_sessionId input, cart_totalPrice = 0, cart_totalTax = 0,
             cart_totalShipping = 0, cart_couponCode = None, cart_couponDiscount = 0,
             cart_expiresAt = Some (now + 30 * 24 * 60 * 60), cart_createdAt = now,
             cart_updatedAt = now\<rparr>
      in (cart,
          db\<lparr>carts := sql_insert (cart\<lparr>cart_userId := or_null (cart_userId cart),
                                         cart_sessionId := or_null (cart_sessionId cart)\<rparr>)
                       (carts db)\<rparr>))"

definition getCart :: "string \<Rightarrow> cart_db \<Rightarrow> Cart option" where
  "getCart cid db = sql_first (\<lambda>c. cart_id c = cid) (carts db)"

text \<open>\<open>SELECT * FROM cart_items WHERE cart_id = ? ORDER BY created_at ASC\<close>\<close>

definition getItems :: "string \<Rightarrow> cart_db \<Rightarrow> CartItem list" where
  "getItems cid db = sort_key item_createdAt (filter (\<lambda>i. item_cartId i = cid) (cart_items db))"

text \<open>\<open>storeResult?.tax_rate || 0\<close>: zero when there is no such store, or no rate.\<close>

definition tax_rate_or_0 :: "Store option \<Rightarrow> real" where
  "tax_rate_or_0 storeResult =
     (case storeResult of None \<Rightarrow> 0 | Some s \<Rightarrow> if store_taxRate s = 0 then 0 else store_taxRate s)"

text \<open>
  \<open>recalculateCart\<close>: the loop \<open>subtotal += item.price * item.quantity\<close> over the cart's
  items, the tax at the store's rate, the total, and the \<open>UPDATE\<close> of \<open>total_price\<close>
  and \<open>total_tax\<close>. A missing cart throws.
\<close>

definition recalculateCart :: "string \<Rightarrow> int \<Rightarrow> cart_db \<Rightarrow> (thrown + unit) \<times> cart_db" where
  "recalculateCart cid now db =
     (case getCart cid db of
        None \<Rightarrow> (Inl (Error (''Cart not found: '' @ cid)), db)
      | Some cart \<Rightarrow>
          (let items = getItems cid db;
               subtotal = foldl (\<lambda>subtotal item. subtotal + item_price item * item_quantity item)
                            0 items;
               taxRate = tax_rate_or_0 (sql_first (\<lambda>s. store_id s = cart_storeId cart) (stores db));
               tax = subtotal * (taxRate / 100);
               total = subtotal + tax + cart_totalShipping cart - cart_couponDiscount cart
           in (Inr (),
               db\<lparr>carts := sql_update (\<lambda>c. cart_id c = cid)
                     (\<lambda>c. c\<lparr>cart_totalPrice := total, cart_totalTax := tax,
                            cart_updatedAt := now\<rparr>) (carts db)\<rparr>)))"

text \<open>\<open>addItem\<close>: the item is inserted (clock \<open>t0\<close>), then the cart is recalculated (clock \<open>t1\<close>).\<close>

definition addItem ::
  "string \<Rightarrow> AddCartItemInput \<Rightarrow> string \<Rightarrow> int \<Rightarrow> int \<Rightarrow> cart_db \<Rightarrow> (thrown + CartItem) \<times> cart_db" where
  "addItem cid input new_id t0 t1 db =
     (let item =
            \<lparr>item_id = new_id, item_cartId = cid, item_productId = aci_productId input,
             item_variantId = aci_variantId input, item_quantity = aci_quantity input,
             item_price = aci_price input, item_createdAt = t0\<rparr>;
          db1 = db\<lparr>cart_items :=
                     sql_insert (item\<lparr>item_variantId := or_null (item_variantId item)\<rparr>)
                       (cart_items db)\<rparr>
      in case recalculateCart cid t1 db1 of
           (Inl error, db2) \<Rightarrow> (Inl error, db2)
         | (Inr u, db2) \<Rightarrow> (Inr item, db2))"

definition removeItem :: "string \<Rightarrow> int \<Rightarrow> cart_db \<Rightarrow> (thrown + unit) \<times> cart_db" where
  "removeItem iid now db =
     (case sql_first (\<lambda>i. item_id i = iid) (cart_items db) of
        None \<Rightarrow> (Inl (Error (''Cart item not found: '' @ iid)), db)
      | Some item \<Rightarrow>
          recalculateCart (item_cartId item) now
            (db\<lparr>cart_items := sql_delete (\<lambda>i. item_id i = iid) (cart_items db)\<rparr>))"

definition updateItem :: "string \<Rightarrow> real \<Rightarrow> int \<Rightarrow> cart_db \<Rightarrow> (thrown + unit) \<times> cart_db" where
  "updateItem iid quantity now db =
     (case sql_first (\<lambda>i. item_id i = iid) (cart_items db) of
        None \<Rightarrow> (Inl (Error (''Cart item not found: '' @ iid)), db)
      | Some item \<Rightarrow>
          if quantity \<le> 0 then removeItem iid now db
          else recalculateCart (item_cartId item) now
                 (db\<lparr>cart_items := sql_update (\<lambda>i. item_id i = iid)
                        (\<lambda>i. i\<lparr>item_quantity := quantity\<rparr>) (cart_items db)\<rparr>))"

text \<open>\<open>clearCart\<close>: the items go and the four amounts are reset, with no recalculation.\<close>

definition clearCart :: "string \<Rightarrow> int \<Rightarrow> cart_db \<Rightarrow> cart_db" where
  "clearCart cid now db =
     db\<lparr>cart_items := sql_delete (\<lambda>i. item_cartId i = cid) (cart_items db),
        carts := sql_update (\<lambda>c. cart_id c = cid)
          (\<lambda>c. c\<lparr>cart_totalPrice := 0, cart_totalTax := 0, cart_totalShipping := 0,
                 cart_couponDiscount := 0, cart_updatedAt := now\<rparr>) (carts db)\<rparr>"

definition applyCoupon ::
  "string \<Rightarrow> string \<Rightarrow> real \<Rightarrow> int \<Rightarrow> int \<Rightarrow> cart_db \<Rightarrow> (thrown + unit) \<times> cart_db" where
  "applyCoupon cid couponCode discount t0 t1 db =
     recalculateCart cid t1
       (db\<lparr>carts := sql_update (\<lambda>c. cart_id c = cid)
              (\<lambda>c. c\<lparr>cart_couponCode := Some couponCode, cart_couponDiscount := discount,
                     cart_updatedAt := t0\<rparr>) (carts db)\<rparr>)"

definition removeCoupon :: "string \<Rightarrow> int \<Rightarrow> int \<Rightarrow> cart_db \<Rightarrow> (thrown + unit) \<times> cart_db" where
  "removeCoupon cid t0 t1 db =
     recalculateCart cid t1
       (db\<lparr>carts := sql_update (\<lambda>c. cart_id c = cid)
              (\<lambda>c. c\<lparr>cart_couponCode := None, cart_couponDiscount := 0,
                     cart_updatedAt := t0\<rparr>) (carts db)\<rparr>)"

definition setShipping :: "string \<Rightarrow> real \<Rightarrow> int \<Rightarrow> int \<Rightarrow> cart_db \<Rightarrow> (thrown + unit) \<times> cart_db" where
  "setShipping cid shippingCost t0 t1 db =
     recalculateCart cid t1
       (db\<lparr>carts := sql_update (\<lambda>c. cart_id c = cid)
              (\<lambda>c. c\<lparr>cart_totalShipping := shippingCost, cart_updatedAt := t0\<rparr>) (carts db)\<rparr>)"

text \<open>
  The requests that change a cart, each with what it reads from its environment, and
  a sequence of them: each request runs on the database the one before left, whether that
  one threw or not.
\<close>

datatype cart_op =
  AddItem string AddCartItemInput string int int
  | UpdateItem string real int
  | RemoveItem string int
  | ApplyCoupon string string real int int
  | RemoveCoupon string int int
  | SetShipping string real int int

fun run_cart_op :: "cart_op \<Rightarrow> cart_db \<Rightarrow> (thrown + unit) \<times> cart_db" where
  "run_cart_op (AddItem cid input new_id t0 t1) db =
     (case addItem cid input new_id t0 t1 db of
        (Inl error, db') \<Rightarrow> (Inl error, db') | (Inr item, db') \<Rightarrow> (Inr (), db'))"
| "run_cart_op (UpdateItem iid quantity now) db = updateItem iid quantity now db"
| "run_cart_op (RemoveItem iid now) db = removeItem iid now db"
| "run_cart_op (ApplyCoupon cid couponCode discount t0 t1) db =
     applyCoupon cid couponCode discount t0 t1 db"
| "run_cart_op (RemoveCoupon cid t0 t1) db = removeCoupon cid t0 t1 db"
| "run_cart_op (SetShipping cid shippingCost t0 t1) db = setShipping cid shippingCost t0 t1 db"

fun run_cart_ops :: "cart_op list \<Rightarrow> cart_db \<Rightarrow> cart_db" where
  "run_cart_ops [] db = db"
| "run_cart_ops (op # ops) db = run_cart_ops ops (snd (run_cart_op op db))"

text \<open>
  The cart a request recalculates: the \<open>cartId\<close> it is given, or the \<open>cart_id\<close> of the
  item it is given (none when there is no such item: the request throws first).
\<close>

fun recalculated_cart :: "cart_op \<Rightarrow> cart_db \<Rightarrow> string option" where
  "recalculated_cart (AddItem cid input new_id t0 t1) db = Some cid"
| "recalculated_cart (UpdateItem iid quantity now) db =
     map_option item_cartId (sql_first (\<lambda>i. item_id i = iid) (cart_items db))"
| "recalculated_cart (RemoveItem iid now) db =
     map_option item_cartId (sql_first (\<lambda>i. item_id i = iid) (cart_items db))"
| "recalculated_cart (ApplyCoupon cid couponCode discount t0 t1) db = Some cid"
| "recalculated_cart (RemoveCoupon cid t0 t1) db = Some cid"
| "recalculated_cart (SetShipping cid shippingCost t0 t1) db = Some cid"

text \<open>
  The subtotal in the spec's words: the sum of price times quantity over the cart's current
  items, which are the rows of \<open>cart_items\<close> whose \<open>cart_id\<close> is the cart's id.
\<close>

definition items_subtotal :: "string \<Rightarrow> cart_db \<Rightarrow> real" where
  "items_subtotal cid db =
     (\<Sum>item \<leftarrow> filter (\<lambda>i. item_cartId i = cid) (cart_items db).
        item_price item * item_quantity item)"

text \<open>
  Modelled from the spec: the schema of \<open>carts\<close> and \<open>cart_items\<close> (the migration that
  creates the two tables) is not among the sources. The spec has "Cart owns CartItems
  (cascade-delete on cart clear/expiry)" and "items cascade": \<open>cart_items.cart_id\<close>
  references \<open>carts(id)\<close> with \<open>ON DELETE CASCADE\<close>. So \<open>DELETE FROM carts WHERE c\<close>
  removes the matching carts and, with each, the items whose \<open>cart_id\<close> is its id.
\<close>

definition delete_from_carts :: "(Cart \<Rightarrow> bool) \<Rightarrow> cart_db \<Rightarrow> cart_db" where
  "delete_from_carts c db =
     db\<lparr>carts := sql_delete c (carts db),
        cart_items :=
          sql_delete (\<lambda>i. list_ex (\<lambda>k. c k \<and> cart_id k = item_cartId i) (carts db))
            (cart_items db)\<rparr>"

text \<open>\<open>DELETE FROM carts WHERE expires_at < ?\<close>: a null \<open>expires_at\<close> does not match.\<close>

definition deleteExpiredCarts :: "int \<Rightarrow> cart_db \<Rightarrow> cart_db" where
  "deleteExpiredCarts now db =
     delete_from_carts (\<lambda>c. case cart_expiresAt c of Some e \<Rightarrow> e < now | None \<Rightarrow> False) db"

text \<open>A cart has expired, in the spec's words, when its \<open>expiresAt\<close> is earlier than now.\<close>

definition cart_expired :: "int \<Rightarrow> Cart \<Rightarrow> bool" where
  "cart_expired now cart = (case cart_expiresAt cart of Some e \<Rightarrow> e < now | None \<Rightarrow> False)"

subsection \<open>Example databases\<close>

text \<open>The order of the spec's scenario: subtotal 100, tax 8, shipping 10, total 118.\<close>

definition order_book :: order_db where
  "order_book = \<lparr>orders = [
     \<lparr>order_id = ''order_1'', order_storeId = ''s1'', order_orderNumber = ''ORD-1'',
      order_userId = None, order_email = ''a@example.org'', order_status = OrderPending,
      order_paymentStatus = Unpaid, order_shippingStatus = Unshipped,
      order_subtotal = 100, order_tax = 8, order_shipping = 10, order_discount = 0,
      order_total = 118, order_currency = ''USD'', order_paymentMethod = None,
      order_paymentId = None, order_shippingAddress = None, order_billingAddress = None,
      order_notes = None, order_metadata = None, order_createdAt = 100,
      order_updatedAt = 100\<rparr>]\<rparr>"

text \<open>A two-product inventory to run the stock methods on.\<close>

definition shelf :: product_db where
  "shelf = \<lparr>products = [
     \<lparr>prod_id = ''p1'', prod_storeId = ''s1'', prod_name = ''Mug'', prod_slug = ''mug'',
      prod_description = None, prod_type = Physical, prod_sku = None, prod_price = 15,
      prod_cost = None, prod_stockQuantity = 3, prod_weight = None, prod_dimensions = None,
      prod_imageUrl = None, prod_galleryUrls = None, prod_isActive = True,
      prod_isFeatured = False, prod_metadata = None, prod_createdAt = 100, prod_updatedAt = 100\<rparr>,
     \<lparr>prod_id = ''p2'', prod_storeId = ''s1'', prod_name = ''Shirt'', prod_slug = ''shirt'',
      prod_description = None, prod_type = Physical, prod_sku = None, prod_price = 25,
      prod_cost = None, prod_stockQuantity = 7, prod_weight = None, prod_dimensions = None,
      prod_imageUrl = None, prod_galleryUrls = None, prod_isActive = True,
      prod_isFeatured = False, prod_metadata = None, prod_createdAt = 100, prod_updatedAt = 100\<rparr>]\<rparr>"

text \<open>
  A gateway to run the payment methods with: it declines a charge of amount zero or less,
  throws a value that is no \<open>Error\<close> on a refund of amount zero or less, and answers any
  other refund with an id built from the transaction id it was given.
\<close>

definition test_gateway :: PaymentGatewayHandler where
  "test_gateway =
     \<lparr>gw_process = (\<lambda>i. if gp_amount i \<le> 0 then Inl (Error ''card declined'')
                          else Inr (''ch_'' @ gp_orderId i)),
      gw_refund = (\<lambda>i. if gr_amount i \<le> 0 then Inl (NonError ''timeout'')
                         else Inr (''re_'' @ gr_transactionId i))\<rparr>"

definition stripe_only :: gateways where
  "stripe_only = registerGateway Stripe test_gateway Map.empty"

definition paypal_only :: gateways where
  "paypal_only = registerGateway Paypal test_gateway Map.empty"

definition empty_ledger :: payment_db where
  "empty_ledger = \<lparr>payments = [], refunds = []\<rparr>"

definition charge :: ProcessPaymentInput where
  "charge = \<lparr>ppi_paymentMethodType = Stripe, ppi_amount = 118, ppi_currency = ''USD'',
            ppi_orderId = ''order_1'', ppi_metadata = None\<rparr>"

text \<open>
  A ledger with a completed payment, a payment still pending (no transaction id), pending
  refunds against each, a refund of amount zero, a refund with no payment id and a refund
  whose payment is not on record.
\<close>

definition ledger :: payment_db where
  "ledger = \<lparr>payments = [
       \<lparr>pay_id = ''pay_1'', pay_orderId = ''order_1'', pay_paymentMethodId = [],
        pay_amount = 118, pay_currency = ''USD'', pay_status = PaymentCompleted,
        pay_transactionId = Some ''ch_order_1'', pay_errorMessage = None,
        pay_metadata = None, pay_createdAt = 100, pay_updatedAt = 101\<rparr>,
       \<lparr>pay_id = ''pay_2'', pay_orderId = ''order_2'', pay_paymentMethodId = [],
        pay_amount = 40, pay_currency = ''EUR'', pay_status = PaymentPending,
        pay_transactionId = None, pay_errorMessage = None,
        pay_metadata = None, pay_createdAt = 110, pay_updatedAt = 110\<rparr>],
     refunds = [
       \<lparr>ref_id = ''ref_1'', ref_orderId = ''order_1'', ref_paymentId = Some ''pay_1'',
        ref_amount = 18, ref_reason = None, ref_status = RefundPending,
        ref_transactionId = None, ref_createdAt = 200, ref_updatedAt = 200\<rparr>,
       \<lparr>ref_id = ''ref_2'', ref_orderId = ''order_2'', ref_paymentId = Some ''pay_2'',
        ref_amount = 40, ref_reason = None, ref_status = RefundPending,
        ref_transactionId = None, ref_createdAt = 210, ref_updatedAt = 210\<rparr>,
       \<lparr>ref_id = ''ref_3'', ref_orderId = ''order_1'', ref_paymentId = Some ''pay_1'',
        ref_amount = 0, ref_reason = None, ref_status = RefundPending,
        ref_transactionId = None, ref_createdAt = 220, ref_updatedAt = 220\<rparr>,
       \<lparr>ref_id = ''ref_4'', ref_orderId = ''order_1'', ref_paymentId = None,
        ref_amount = 5, ref_reason = None, ref_status = RefundPending,
        ref_transactionId = None, ref_createdAt = 230, ref_updatedAt = 230\<rparr>,
       \<lparr>ref_id = ''ref_5'', ref_orderId = ''order_1'', ref_paymentId = Some ''pay_9'',
        ref_amount = 5, ref_reason = None, ref_status = RefundPending,
        ref_transactionId = None, ref_createdAt = 240, ref_updatedAt = 240\<rparr>]\<rparr>"

text \<open>
  A digital shop: one file is registered and uploaded, then a link is minted for it with
  one download allowed and seven days to expiry.
\<close>

definition empty_downloads :: download_db where
  "empty_downloads = \<lparr>digital_downloads = [], download_links = [], r2 = Map.empty\<rparr>"

definition ebook :: CreateDigitalDownloadInput where
  "ebook = \<lparr>cdi_productId = ''p1'', cdi_fileName = ''book.pdf'', cdi_filePath = ''/books'',
            cdi_fileSize = Some 2048, cdi_mimeType = Some ''application/pdf'',
            cdi_downloadLimit = None, cdi_expirationDays = None\<rparr>"

definition shop_ops :: "download_op list" where
  "shop_ops =
     [CreateDigitalDownload ebook ''dl_1'' 100,
      UploadFile ''%PDF'' ''dl_1'',
      CreateDownloadLink ''item_1'' ''dl_1'' (Some 1) (Some 7) ''link_1'' ''tok1'' 1000]"

definition shop :: download_db where
  "shop = run_download_ops shop_ops empty_downloads"




text \<open>
  The spec's cart scenario: a store with tax rate 10, a new cart, two items (2 at 10.00
  and 1 at 5.00), shipping 5.00, and last a coupon of 3.00.
\<close>

definition market :: cart_db where
  "market =
     snd (createCart \<lparr>cci_storeId = ''s1'', cci_userId = Some ''u1'', cci_sessionId = None\<rparr>
            ''cart_1'' 100
            \<lparr>carts = [], cart_items = [],
             stores = [\<lparr>store_id = ''s1'', store_name = ''Shop'', store_slug = ''shop'',
                        store_description = None, store_logoUrl = None,
                        store_currency = ''USD'', store_taxRate = 10,
                        store_shippingEnabled = True, store_isActive = True,
                        store_settings = ''{}'', store_createdAt = 1, store_updatedAt = 1\<rparr>]\<rparr>)"

definition scenario :: "cart_op list" where
  "scenario =
     [AddItem ''cart_1'' \<lparr>aci_productId = ''P1'', aci_variantId = None, aci_quantity = 2,
                          aci_price = 10\<rparr> ''item_1'' 110 111,
      AddItem ''cart_1'' \<lparr>aci_productId = ''P2'', aci_variantId = None, aci_quantity = 1,
                          aci_price = 5\<rparr> ''item_2'' 120 121,
      SetShipping ''cart_1'' 5 130 131]"

definition checkout :: cart_db where
  "checkout = run_cart_ops scenario market"

text \<open>Two carts with an item each: \<open>cart_a\<close> expires at 500, \<open>cart_b\<close> at 5000.\<close>

definition two_carts :: cart_db where
  "two_carts =
     \<lparr>carts =
        [\<lparr>cart_id = ''cart_a'', cart_storeId = ''s1'', cart_userId = None,
          cart_sessionId = Some ''sess_a'', cart_totalPrice = 10, cart_totalTax = 0,
          cart_totalShipping = 0, cart_couponCode = None, cart_couponDiscount = 0,
          cart_expiresAt = Some 500, cart_createdAt = 1, cart_updatedAt = 2\<rparr>,
         \<lparr>cart_id = ''cart_b'', cart_storeId = ''s1'', cart_userId = None,
          cart_sessionId = Some ''sess_b'', cart_totalPrice = 5, cart_totalTax = 0,
          cart_totalShipping = 0, cart_couponCode = None, cart_couponDiscount = 0,
          cart_expiresAt = Some 5000, cart_createdAt = 3, cart_updatedAt = 4\<rparr>],
      cart_items =
        [\<lparr>item_id = ''item_a'', item_cartId = ''cart_a'', item_productId = ''P1'',
          item_variantId = None, item_quantity = 1, item_price = 10, item_createdAt = 2\<rparr>,
         \<lparr>item_id = ''item_b'', item_cartId = ''cart_b'', item_productId = ''P2'',
          item_variantId = None, item_quantity = 1, item_price = 5, item_createdAt = 4\<rparr>],
      stores = []\<rparr>"

section \<open>Theorems\<close>

subsection \<open>Facts about the SQL statements\<close>

lemma sql_update_cases:
  assumes "r' \<in> set (sql_update c f rows)"
  obtains r where "r \<in> set rows" "c r" "r' = f r" | "r' \<in> set rows" "\<not> c r'"
  using assms by (auto simp: sql_update_def split: if_splits)

lemma sql_update_all:
  assumes "\<forall>r \<in> set rows. P r" and "\<And>r. P r \<Longrightarrow> c r \<Longrightarrow> P (f r)"
  shows "\<forall>r \<in> set (sql_update c f rows). P r"
  using assms by (auto simp: sql_update_def)

lemma sql_first_update:
  assumes "\<And>r. k (f r) = k r"
  shows "sql_first (\<lambda>r. k r = x') (sql_update (\<lambda>r. k r = x) f rows) =
        (if x' = x then map_option f (sql_first (\<lambda>r. k r = x) rows)
         else sql_first (\<lambda>r. k r = x') rows)"
  unfolding sql_first_def sql_update_def using assms by (induction rows) auto

subsection \<open>Stock\<close>

lemma stock_of_decreaseStock:
  "stock_of (decreaseStock pid q now db) pid' =
     (if pid' = pid then map_option (\<lambda>s. max 0 (s - q)) (stock_of db pid) else stock_of db pid')"
  by (simp add: stock_of_def decreaseStock_def sql_first_update option.map_comp comp_def)

lemma decreaseStock_nonneg:
  assumes "\<forall>p \<in> set (products db). 0 \<le> prod_stockQuantity p"
  shows "\<forall>p \<in> set (products (decreaseStock pid q now db)). 0 \<le> prod_stockQuantity p"
proof -
  have "\<forall>p \<in> set (sql_update (\<lambda>p. prod_id p = pid)
           (\<lambda>p. p\<lparr>prod_stockQuantity := max 0 (prod_stockQuantity p - q),
                  prod_updatedAt := now\<rparr>) (products db)). 0 \<le> prod_stockQuantity p"
    by (rule sql_update_all [OF assms]) simp
  then show ?thesis by (simp add: decreaseStock_def)
qed

lemma decreaseStock_calls_nonneg:
  assumes "\<forall>p \<in> set (products db). 0 \<le> prod_stockQuantity p"
  shows "\<forall>p \<in> set (products (decreaseStock_calls calls db)). 0 \<le> prod_stockQuantity p"
  using assms
proof (induction calls arbitrary: db)
  case Nil
  then show ?case by simp
next
  case (Cons c calls)
  obtain pid q now where c: "c = (pid, q, now)" by (cases c)
  show ?case
    unfolding c decreaseStock_calls.simps
    by (rule Cons.IH) (rule decreaseStock_nonneg [OF Cons.prems])
qed

lemma decreaseStock_target_nonneg:
  "\<forall>p \<in> set (products (decreaseStock pid q now db)). prod_id p = pid \<longrightarrow> 0 \<le> prod_stockQuantity p"
proof
  fix p assume "p \<in> set (products (decreaseStock pid q now db))"
  then have "p \<in> set (sql_update (\<lambda>p. prod_id p = pid)
           (\<lambda>p. p\<lparr>prod_stockQuantity := max 0 (prod_stockQuantity p - q),
                  prod_updatedAt := now\<rparr>) (products db))"
    by (simp add: decreaseStock_def)
  then show "prod_id p = pid \<longrightarrow> 0 \<le> prod_stockQuantity p"
    by (rule sql_update_cases) simp_all
qed

text \<open>
  C10. \<open>decreaseStock(id, quantity)\<close> sets the stock of product \<open>id\<close> to
  \<open>max(0, stock - quantity)\<close> and leaves every other product's stock alone; the stock it
  writes is never negative, a non-negative inventory stays non-negative over any sequence
  of calls, and a quantity above the stock gives stock zero (the method has no failure).
\<close>

theorem decreaseStock_clamps_at_zero:
  "stock_of (decreaseStock pid q now db) pid = map_option (\<lambda>s. max 0 (s - q)) (stock_of db pid)
   \<and> (\<forall>pid'. pid' \<noteq> pid \<longrightarrow> stock_of (decreaseStock pid q now db) pid' = stock_of db pid')
   \<and> (\<forall>p \<in> set (products (decreaseStock pid q now db)). prod_id p = pid \<longrightarrow> 0 \<le> prod_stockQuantity p)
   \<and> ((\<forall>p \<in> set (products db). 0 \<le> prod_stockQuantity p) \<longrightarrow>
        (\<forall>p \<in> set (products (decreaseStock_calls calls db)). 0 \<le> prod_stockQuantity p))
   \<and> (\<forall>s. stock_of db pid = Some s \<and> s < q \<longrightarrow> stock_of (decreaseStock pid q now db) pid = Some 0)"
proof (intro conjI)
  show "stock_of (decreaseStock pid q now db) pid = map_option (\<lambda>s. max 0 (s - q)) (stock_of db pid)"
    by (simp add: stock_of_decreaseStock)
  show "\<forall>pid'. pid' \<noteq> pid \<longrightarrow> stock_of (decreaseStock pid q now db) pid' = stock_of db pid'"
    by (simp add: stock_of_decreaseStock)
  show "\<forall>p \<in> set (products (decreaseStock pid q now db)). prod_id p = pid \<longrightarrow> 0 \<le> prod_stockQuantity p"
    by (rule decreaseStock_target_nonneg)
  show "(\<forall>p \<in> set (products db). 0 \<le> prod_stockQuantity p) \<longrightarrow>
        (\<forall>p \<in> set (products (decreaseStock_calls calls db)). 0 \<le> prod_stockQuantity p)"
    using decreaseStock_calls_nonneg by blast
  show "\<forall>s. stock_of db pid = Some s \<and> s < q \<longrightarrow> stock_of (decreaseStock pid q now db) pid = Some 0"
    by (simp add: stock_of_decreaseStock)
qed

theorem decreaseStock_clamps_at_zero_witness:
  "stock_of shelf ''p1'' = Some 3 \<and> (3::int) < 5
   \<and> stock_of (decreaseStock ''p1'' 5 200 shelf) ''p1'' = Some 0
   \<and> ''p2'' \<noteq> ''p1'' \<and> stock_of (decreaseStock ''p1'' 5 200 shelf) ''p2'' = Some 7
   \<and> map prod_stockQuantity (products shelf) = [3, 7]
   \<and> list_all (\<lambda>p. 0 \<le> prod_stockQuantity p)
         (products (decreaseStock_calls [(''p1'', 5, 200), (''p2'', 2, 201)] shelf))
   \<and> stock_of (decreaseStock_calls [(''p1'', 5, 200), (''p2'', 2, 201)] shelf) ''p2'' = Some 5"
proof -
  have s: "stock_of shelf ''p1'' = Some 3" "stock_of shelf ''p2'' = Some 7"
    by (simp_all add: stock_of_def shelf_def sql_first_def)
  have m: "map prod_stockQuantity (products shelf) = [3, 7]"
    by (simp add: shelf_def)
  have nn: "\<forall>p \<in> set (products shelf). 0 \<le> prod_stockQuantity p"
    by (simp add: shelf_def)
  note t = decreaseStock_clamps_at_zero [of "''p1''" 5 200 shelf "[(''p1'', 5, 200), (''p2'', 2, 201)]"]
  have "stock_of (decreaseStock ''p1'' 5 200 shelf) ''p1'' = Some 0"
    using t s by simp
  moreover have "stock_of (decreaseStock ''p1'' 5 200 shelf) ''p2'' = Some 7"
    using t s by simp
  moreover have "list_all (\<lambda>p. 0 \<le> prod_stockQuantity p)
         (products (decreaseStock_calls [(''p1'', 5, 200), (''p2'', 2, 201)] shelf))"
    unfolding list_all_iff using t nn by blast
  moreover have "stock_of (decreaseStock_calls [(''p1'', 5, 200), (''p2'', 2, 201)] shelf) ''p2'' = Some 5"
    using s by (simp add: stock_of_decreaseStock)
  ultimately show ?thesis using s m by simp
qed

subsection \<open>Orders\<close>

lemma sql_update_map_inv:
  assumes "\<And>r. g (f r) = g r"
  shows "map g (sql_update c f rows) = map g rows"
  using assms by (simp add: sql_update_def)

lemma immutable_part_amounts: "amounts (immutable_part r) = amounts r"
  by (simp add: amounts_def immutable_part_def)

lemma order_frame_updateOrder:
  "map immutable_part (orders (snd (updateOrder oid input now db))) = map immutable_part (orders db)"
  by (simp add: updateOrder_def Let_def sql_update_map_inv immutable_part_def split: option.split)

lemma order_frame_updateOrderStatus:
  "map immutable_part (orders (updateOrderStatus oid st now db)) = map immutable_part (orders db)"
  by (simp add: updateOrderStatus_def sql_update_map_inv immutable_part_def)

lemma order_frame_updatePaymentStatus:
  "map immutable_part (orders (updatePaymentStatus oid ps now db)) = map immutable_part (orders db)"
  by (simp add: updatePaymentStatus_def sql_update_map_inv immutable_part_def)

lemma order_frame_updateShippingStatus:
  "map immutable_part (orders (updateShippingStatus oid ss now db)) = map immutable_part (orders db)"
  by (simp add: updateShippingStatus_def sql_update_map_inv immutable_part_def)

lemma order_frame_markAsPaid:
  "map immutable_part (orders (markAsPaid oid pid now db)) = map immutable_part (orders db)"
  by (simp add: markAsPaid_def sql_update_map_inv immutable_part_def split: option.split)

lemma amounts_of_immutable_part:
  assumes "map immutable_part rows' = map immutable_part rows"
  shows "map amounts rows' = map amounts rows"
proof -
  have "map amounts rs = map amounts (map immutable_part rs)" for rs
    by (simp add: immutable_part_amounts)
  then show ?thesis using assms by metis
qed

lemma updateOrder_result_amounts:
  "case fst (updateOrder oid input now db) of
     Inl e \<Rightarrow> getOrder oid db = None
   | Inr updated \<Rightarrow> map_option amounts (getOrder oid db) = Some (amounts updated)"
  by (simp add: updateOrder_def Let_def amounts_def split: option.split)

lemma order_frame_call:
  "map immutable_part (orders (run_order_call call now db)) = map immutable_part (orders db)"
  by (cases call)
     (simp_all add: order_frame_updateOrder order_frame_updateOrderStatus
        order_frame_updatePaymentStatus order_frame_updateShippingStatus order_frame_markAsPaid
        cancelOrder_def)

lemma order_frame_calls:
  "map immutable_part (orders (run_order_calls calls db)) = map immutable_part (orders db)"
proof (induction calls arbitrary: db)
  case Nil
  show ?case by simp
next
  case (Cons c calls)
  obtain call now where c: "c = (call, now)" by (cases c)
  show ?case unfolding c by (simp add: Cons.IH order_frame_call)
qed

lemma find_over_map: "find c (map g rows) = map_option g (find (c \<circ> g) rows)"
  by (induction rows) simp_all

lemma getOrder_amounts_of_immutable_part:
  assumes "map immutable_part (orders db') = map immutable_part (orders db)"
  shows "map_option amounts (getOrder oid db') = map_option amounts (getOrder oid db)"
proof -
  have id: "(\<lambda>r. order_id r = oid) = (\<lambda>r. order_id r = oid) \<circ> immutable_part"
    by (simp add: fun_eq_iff immutable_part_def)
  have "map_option amounts (getOrder oid d) =
        map_option amounts (find (\<lambda>r. order_id r = oid) (map immutable_part (orders d)))" for d
    unfolding find_over_map getOrder_def sql_first_def id [symmetric]
    by (simp add: option.map_comp comp_def immutable_part_amounts)
  then show ?thesis using assms by simp
qed

text \<open>
  C2. No status method touches the money of an order: over any sequence of
  \<open>updateOrder\<close>, \<open>updateOrderStatus\<close>, \<open>updatePaymentStatus\<close>, \<open>updateShippingStatus\<close>,
  \<open>cancelOrder\<close> and \<open>markAsPaid\<close> calls, every row of \<open>orders\<close> keeps every field but
  status, paymentStatus, shippingStatus, notes, metadata, paymentId and updatedAt; so
  subtotal, tax, shipping, discount and total of every row, and of the order \<open>getOrder\<close>
  reads under any id, stay what they were. The object \<open>updateOrder\<close> returns carries the
  stored amounts too.
\<close>

theorem order_amounts_frozen:
  "map immutable_part (orders (run_order_calls calls db)) = map immutable_part (orders db)
   \<and> map amounts (orders (run_order_calls calls db)) = map amounts (orders db)
   \<and> map_option amounts (getOrder oid (run_order_calls calls db)) = map_option amounts (getOrder oid db)
   \<and> (case fst (updateOrder oid input now db) of
         Inl e \<Rightarrow> getOrder oid db = None
       | Inr updated \<Rightarrow> map_option amounts (getOrder oid db) = Some (amounts updated))"
proof (intro conjI)
  show f: "map immutable_part (orders (run_order_calls calls db)) = map immutable_part (orders db)"
    by (rule order_frame_calls)
  show "map amounts (orders (run_order_calls calls db)) = map amounts (orders db)"
    using f by (rule amounts_of_immutable_part)
  show "map_option amounts (getOrder oid (run_order_calls calls db)) = map_option amounts (getOrder oid db)"
    using f by (rule getOrder_amounts_of_immutable_part)
  show "case fst (updateOrder oid input now db) of
         Inl e \<Rightarrow> getOrder oid db = None
       | Inr updated \<Rightarrow> map_option amounts (getOrder oid db) = Some (amounts updated)"
    by (rule updateOrder_result_amounts)
qed

theorem order_amounts_frozen_witness:
  "map_option amounts (getOrder ''order_1'' order_book) = Some (100, 8, 10, 0, 118)
   \<and> map_option amounts (getOrder ''order_1''
        (run_order_calls [(UpdateOrderStatus ''order_1'' OrderPaid, 200),
                          (MarkAsPaid ''order_1'' (Some ''pay_1''), 201),
                          (UpdateShippingStatus ''order_1'' ShippedOut, 202),
                          (CancelOrder ''order_1'', 203)] order_book))
      = Some (100, 8, 10, 0, 118)
   \<and> map_option order_status (getOrder ''order_1''
        (run_order_calls [(UpdateOrderStatus ''order_1'' OrderPaid, 200)] order_book))
      = Some OrderPaid"
proof -
  have a: "map_option amounts (getOrder ''order_1'' order_book) = Some (100, 8, 10, 0, 118)"
    by (simp add: getOrder_def sql_first_def order_book_def amounts_def)
  have s: "map_option order_status (getOrder ''order_1''
        (run_order_calls [(UpdateOrderStatus ''order_1'' OrderPaid, 200)] order_book))
      = Some OrderPaid"
    by (simp add: getOrder_def sql_first_def order_book_def updateOrderStatus_def sql_update_def)
  show ?thesis
    using a s order_amounts_frozen [of "[(UpdateOrderStatus ''order_1'' OrderPaid, 200),
                          (MarkAsPaid ''order_1'' (Some ''pay_1''), 201),
                          (UpdateShippingStatus ''order_1'' ShippedOut, 202),
                          (CancelOrder ''order_1'', 203)]" order_book "''order_1''"]
    by simp
qed

subsection \<open>Payments\<close>

lemma createPayment_appends:
  assumes "createPayment input new_id now db = (payment, db1)"
  shows "pay_id payment = new_id" "pay_status payment = PaymentPending"
    "pay_transactionId payment = None" "pay_errorMessage payment = None"
    "payments db1 = payments db @ [payment]" "refunds db1 = refunds db"
proof -
  have p: "payment = fst (createPayment input new_id now db)"
    and d: "db1 = snd (createPayment input new_id now db)"
    by (simp_all add: assms)
  show "pay_id payment = new_id" "pay_status payment = PaymentPending"
    "pay_transactionId payment = None" "pay_errorMessage payment = None"
    "payments db1 = payments db @ [payment]" "refunds db1 = refunds db"
    unfolding p d by (simp_all add: createPayment_def Let_def sql_insert_def)
qed

lemma sql_update_snoc:
  "sql_update c f (rows @ [r]) = sql_update c f rows @ [if c r then f r else r]"
  by (simp add: sql_update_def)

lemma length_sql_update: "length (sql_update c f rows) = length rows"
  by (simp add: sql_update_def)

lemma processPayment_unfold:
  assumes "createPayment
             \<lparr>cpi_orderId = ppi_orderId input, cpi_paymentMethodId = [],
              cpi_amount = ppi_amount input, cpi_currency = Some (ppi_currency input),
              cpi_metadata = ppi_metadata input\<rparr> new_id t0 db = (payment, db1)"
  shows "processPayment gws input new_id t0 t1 t2 db =
     (case gws (ppi_paymentMethodType input) of
           None \<Rightarrow>
             (Inl (Error (''Payment gateway not registered: ''
                     @ gateway_name (ppi_paymentMethodType input))), db1)
         | Some gateway \<Rightarrow>
             (case gw_process gateway
                     \<lparr>gp_amount = ppi_amount input, gp_currency = ppi_currency input,
                      gp_orderId = ppi_orderId input, gp_metadata = ppi_metadata input\<rparr> of
                Inr transactionId \<Rightarrow>
                  (Inr (payment\<lparr>pay_status := PaymentCompleted,
                                pay_transactionId := Some transactionId, pay_updatedAt := t2\<rparr>),
                   db1\<lparr>payments := sql_update (\<lambda>r. pay_id r = pay_id payment)
                          (\<lambda>r. r\<lparr>pay_status := PaymentCompleted,
                                 pay_transactionId := Some transactionId, pay_updatedAt := t1\<rparr>)
                          (payments db1)\<rparr>)
              | Inl error \<Rightarrow>
                  (Inl error,
                   db1\<lparr>payments := sql_update (\<lambda>r. pay_id r = pay_id payment)
                          (\<lambda>r. r\<lparr>pay_status := PaymentFailed,
                                 pay_errorMessage := Some (error_message error),
                                 pay_updatedAt := t1\<rparr>)
                          (payments db1)\<rparr>)))"
  unfolding processPayment_def assms by simp

text \<open>
  C3. With a gateway registered for the type, \<open>processPayment\<close> first appends a row of
  status pending (\<open>createPayment\<close>, whose result does not depend on the gateway), so the
  table has exactly one more row afterwards. When the gateway resolves with a transaction
  id, the method returns the payment completed, and the row is completed with that id;
  when the gateway throws, the method throws the same value, and the row is failed with
  the error's message (\<open>'Unknown error'\<close> for a thrown value that is no \<open>Error\<close>).
\<close>

theorem processPayment_records_attempt:
  assumes "gws (ppi_paymentMethodType input) = Some gateway"
    and "createPayment
           \<lparr>cpi_orderId = ppi_orderId input, cpi_paymentMethodId = [],
            cpi_amount = ppi_amount input, cpi_currency = Some (ppi_currency input),
            cpi_metadata = ppi_metadata input\<rparr> new_id t0 db = (payment, db1)"
    and "processPayment gws input new_id t0 t1 t2 db = (res, db')"
  shows "pay_status payment = PaymentPending \<and> payments db1 = payments db @ [payment]
     \<and> length (payments db') = length (payments db) + 1
     \<and> (\<forall>transactionId.
           gw_process gateway
             \<lparr>gp_amount = ppi_amount input, gp_currency = ppi_currency input,
              gp_orderId = ppi_orderId input, gp_metadata = ppi_metadata input\<rparr> = Inr transactionId \<longrightarrow>
           res = Inr (payment\<lparr>pay_status := PaymentCompleted,
                             pay_transactionId := Some transactionId, pay_updatedAt := t2\<rparr>)
           \<and> last (payments db') =
               payment\<lparr>pay_status := PaymentCompleted,
                       pay_transactionId := Some transactionId, pay_updatedAt := t1\<rparr>)
     \<and> (\<forall>error.
           gw_process gateway
             \<lparr>gp_amount = ppi_amount input, gp_currency = ppi_currency input,
              gp_orderId = ppi_orderId input, gp_metadata = ppi_metadata input\<rparr> = Inl error \<longrightarrow>
           res = Inl error
           \<and> last (payments db') =
               payment\<lparr>pay_status := PaymentFailed,
                       pay_errorMessage := Some (error_message error), pay_updatedAt := t1\<rparr>)"
proof -
  let ?gi = "\<lparr>gp_amount = ppi_amount input, gp_currency = ppi_currency input,
              gp_orderId = ppi_orderId input, gp_metadata = ppi_metadata input\<rparr>"
  note c = createPayment_appends [OF assms(2)]
  note u = assms(3) [unfolded processPayment_unfold [OF assms(2)] assms(1) option.case]
  have ok: "res = Inr (payment\<lparr>pay_status := PaymentCompleted,
                             pay_transactionId := Some tx, pay_updatedAt := t2\<rparr>)
           \<and> last (payments db') =
               payment\<lparr>pay_status := PaymentCompleted,
                       pay_transactionId := Some tx, pay_updatedAt := t1\<rparr>
           \<and> length (payments db') = length (payments db) + 1"
    if "gw_process gateway ?gi = Inr tx" for tx
  proof -
    from u that have r: "res = Inr (payment\<lparr>pay_status := PaymentCompleted,
                             pay_transactionId := Some tx, pay_updatedAt := t2\<rparr>)"
      and d: "db' = db1\<lparr>payments := sql_update (\<lambda>r. pay_id r = pay_id payment)
                          (\<lambda>r. r\<lparr>pay_status := PaymentCompleted,
                                 pay_transactionId := Some tx, pay_updatedAt := t1\<rparr>)
                          (payments db1)\<rparr>"
      by simp_all
    show ?thesis unfolding r d by (simp add: c(5) sql_update_snoc length_sql_update)
  qed
  have ko: "res = Inl e
           \<and> last (payments db') =
               payment\<lparr>pay_status := PaymentFailed,
                       pay_errorMessage := Some (error_message e), pay_updatedAt := t1\<rparr>
           \<and> length (payments db') = length (payments db) + 1"
    if "gw_process gateway ?gi = Inl e" for e
  proof -
    from u that have r: "res = Inl e"
      and d: "db' = db1\<lparr>payments := sql_update (\<lambda>r. pay_id r = pay_id payment)
                          (\<lambda>r. r\<lparr>pay_status := PaymentFailed,
                                 pay_errorMessage := Some (error_message e),
                                 pay_updatedAt := t1\<rparr>)
                          (payments db1)\<rparr>"
      by simp_all
    show ?thesis unfolding r d by (simp add: c(5) sql_update_snoc length_sql_update)
  qed
  have len: "length (payments db') = length (payments db) + 1"
    using ok ko by (cases "gw_process gateway ?gi") blast+
  show ?thesis
    using c(2) c(5) len ok ko by blast
qed
theorem processPayment_records_attempt_witness:
  "stripe_only (ppi_paymentMethodType charge) = Some test_gateway
   \<and> fst (processPayment stripe_only charge ''pay_1'' 100 101 102 empty_ledger) =
       Inr \<lparr>pay_id = ''pay_1'', pay_orderId = ''order_1'', pay_paymentMethodId = [],
            pay_amount = 118, pay_currency = ''USD'', pay_status = PaymentCompleted,
            pay_transactionId = Some ''ch_order_1'', pay_errorMessage = None,
            pay_metadata = None, pay_createdAt = 100, pay_updatedAt = 102\<rparr>
   \<and> payments (snd (processPayment stripe_only charge ''pay_1'' 100 101 102 empty_ledger)) =
       [\<lparr>pay_id = ''pay_1'', pay_orderId = ''order_1'', pay_paymentMethodId = [],
         pay_amount = 118, pay_currency = ''USD'', pay_status = PaymentCompleted,
         pay_transactionId = Some ''ch_order_1'', pay_errorMessage = None,
         pay_metadata = None, pay_createdAt = 100, pay_updatedAt = 101\<rparr>]
   \<and> fst (processPayment stripe_only (charge\<lparr>ppi_amount := 0\<rparr>) ''pay_2'' 100 101 102 empty_ledger) =
       Inl (Error ''card declined'')
   \<and> payments (snd (processPayment stripe_only (charge\<lparr>ppi_amount := 0\<rparr>) ''pay_2'' 100 101 102
         empty_ledger)) =
       [\<lparr>pay_id = ''pay_2'', pay_orderId = ''order_1'', pay_paymentMethodId = [],
         pay_amount = 0, pay_currency = ''USD'', pay_status = PaymentFailed,
         pay_transactionId = None, pay_errorMessage = Some ''card declined'',
         pay_metadata = None, pay_createdAt = 100, pay_updatedAt = 101\<rparr>]"
proof -
  let ?ok = "processPayment stripe_only charge ''pay_1'' 100 101 102 empty_ledger"
  let ?ko = "processPayment stripe_only (charge\<lparr>ppi_amount := 0\<rparr>) ''pay_2'' 100 101 102 empty_ledger"
  have g: "stripe_only (ppi_paymentMethodType charge) = Some test_gateway"
    "stripe_only (ppi_paymentMethodType (charge\<lparr>ppi_amount := 0\<rparr>)) = Some test_gateway"
    by (simp_all add: stripe_only_def registerGateway_def charge_def)
  have pend: "payments (snd (createPayment c i t empty_ledger)) = [fst (createPayment c i t empty_ledger)]"
    for c i t
    by (simp add: createPayment_def Let_def sql_insert_def empty_ledger_def)
  have one: "length xs = 1 \<Longrightarrow> xs = [last xs]" for xs :: "Payment list"
    by (cases xs) simp_all
  let ?cok = "createPayment
           \<lparr>cpi_orderId = ppi_orderId charge, cpi_paymentMethodId = [],
            cpi_amount = ppi_amount charge, cpi_currency = Some (ppi_currency charge),
            cpi_metadata = ppi_metadata charge\<rparr> ''pay_1'' 100 empty_ledger"
  let ?cko = "createPayment
           \<lparr>cpi_orderId = ppi_orderId (charge\<lparr>ppi_amount := 0\<rparr>), cpi_paymentMethodId = [],
            cpi_amount = ppi_amount (charge\<lparr>ppi_amount := 0\<rparr>),
            cpi_currency = Some (ppi_currency (charge\<lparr>ppi_amount := 0\<rparr>)),
            cpi_metadata = ppi_metadata (charge\<lparr>ppi_amount := 0\<rparr>)\<rparr> ''pay_2'' 100 empty_ledger"
  note ok = processPayment_records_attempt [where gws = stripe_only and input = charge
      and gateway = test_gateway and new_id = "''pay_1''" and ?t0.0 = 100 and ?t1.0 = 101
      and ?t2.0 = 102 and db = empty_ledger and payment = "fst ?cok" and ?db1.0 = "snd ?cok"
      and res = "fst ?ok" and db' = "snd ?ok",
      OF g(1) prod.collapse [symmetric] prod.collapse [symmetric]]
  note ko = processPayment_records_attempt [where gws = stripe_only
      and input = "charge\<lparr>ppi_amount := 0\<rparr>"
      and gateway = test_gateway and new_id = "''pay_2''" and ?t0.0 = 100 and ?t1.0 = 101
      and ?t2.0 = 102 and db = empty_ledger and payment = "fst ?cko" and ?db1.0 = "snd ?cko"
      and res = "fst ?ko" and db' = "snd ?ko",
      OF g(2) prod.collapse [symmetric] prod.collapse [symmetric]]
  have "fst ?ok = Inr \<lparr>pay_id = ''pay_1'', pay_orderId = ''order_1'', pay_paymentMethodId = [],
            pay_amount = 118, pay_currency = ''USD'', pay_status = PaymentCompleted,
            pay_transactionId = Some ''ch_order_1'', pay_errorMessage = None,
            pay_metadata = None, pay_createdAt = 100, pay_updatedAt = 102\<rparr>"
    using ok by (simp add: test_gateway_def charge_def createPayment_def Let_def or_null_def)
  moreover have "payments (snd ?ok) = [last (payments (snd ?ok))]"
    using ok by (intro one) (simp add: empty_ledger_def)
  then have "payments (snd ?ok) =
       [\<lparr>pay_id = ''pay_1'', pay_orderId = ''order_1'', pay_paymentMethodId = [],
         pay_amount = 118, pay_currency = ''USD'', pay_status = PaymentCompleted,
         pay_transactionId = Some ''ch_order_1'', pay_errorMessage = None,
         pay_metadata = None, pay_createdAt = 100, pay_updatedAt = 101\<rparr>]"
    using ok by (simp add: test_gateway_def charge_def createPayment_def Let_def or_null_def)
  moreover have "fst ?ko = Inl (Error ''card declined'')"
    using ko by (simp add: test_gateway_def charge_def)
  moreover have "payments (snd ?ko) = [last (payments (snd ?ko))]"
    using ko by (intro one) (simp add: empty_ledger_def)
  then have "payments (snd ?ko) =
       [\<lparr>pay_id = ''pay_2'', pay_orderId = ''order_1'', pay_paymentMethodId = [],
         pay_amount = 0, pay_currency = ''USD'', pay_status = PaymentFailed,
         pay_transactionId = None, pay_errorMessage = Some ''card declined'',
         pay_metadata = None, pay_createdAt = 100, pay_updatedAt = 101\<rparr>]"
    using ko by (simp add: test_gateway_def charge_def createPayment_def Let_def or_null_def)
  ultimately show ?thesis using g(1) by simp
qed

lemma sql_update_keeps_others:
  assumes "r \<in> set rows" and "\<not> c r"
  shows "r \<in> set (sql_update c f rows)"
  using assms by (force simp: sql_update_def)

lemma processPayment_keeps_other_rows:
  assumes "r \<in> set (payments db)" and "pay_id r \<noteq> new_id"
  shows "r \<in> set (payments (snd (processPayment gws input new_id t0 t1 t2 db)))"
proof -
  let ?c = "createPayment
           \<lparr>cpi_orderId = ppi_orderId input, cpi_paymentMethodId = [],
            cpi_amount = ppi_amount input, cpi_currency = Some (ppi_currency input),
            cpi_metadata = ppi_metadata input\<rparr> new_id t0 db"
  note c = createPayment_appends [OF prod.collapse [symmetric, of ?c]]
  have in1: "r \<in> set (payments (snd ?c))"
    using assms(1) by (simp add: c(5))
  have upd: "r \<in> set (sql_update (\<lambda>r. pay_id r = pay_id (fst ?c)) f (payments (snd ?c)))" for f
    using in1 assms(2) by (intro sql_update_keeps_others) (simp_all add: c(1))
  show ?thesis
    unfolding processPayment_unfold [OF prod.collapse [symmetric, of ?c]]
    using in1 upd by (simp split: option.split sum.split)
qed

lemma processRefund_payments: "payments (snd (processRefund gws rid t1 t2 db)) = payments db"
  by (simp add: processRefund_def split: option.split sum.split)

text \<open>
  C5. With no gateway registered for the type, \<open>processPayment\<close> throws
  \<open>Error('Payment gateway not registered: <type>')\<close> after \<open>createPayment\<close> has appended
  exactly one row, of status pending, and nothing else is written: the lookup stands
  before the \<open>try\<close> block. The row stays as it is under every later \<open>processPayment\<close>
  call that generates another id, and under every \<open>processRefund\<close> call.
\<close>

theorem processPayment_unregistered_gateway:
  assumes "gws (ppi_paymentMethodType input) = None"
    and "createPayment
           \<lparr>cpi_orderId = ppi_orderId input, cpi_paymentMethodId = [],
            cpi_amount = ppi_amount input, cpi_currency = Some (ppi_currency input),
            cpi_metadata = ppi_metadata input\<rparr> new_id t0 db = (payment, db1)"
  shows "processPayment gws input new_id t0 t1 t2 db =
           (Inl (Error (''Payment gateway not registered: ''
                   @ gateway_name (ppi_paymentMethodType input))),
            db\<lparr>payments := payments db @ [payment]\<rparr>)
     \<and> pay_id payment = new_id \<and> pay_status payment = PaymentPending
     \<and> (\<forall>gws' input' new_id' t0' t1' t2' later.
           payment \<in> set (payments later) \<and> new_id' \<noteq> new_id \<longrightarrow>
           payment \<in> set (payments (snd (processPayment gws' input' new_id' t0' t1' t2' later))))
     \<and> (\<forall>gws' rid t1' t2' later.
           payments (snd (processRefund gws' rid t1' t2' later)) = payments later)"
proof -
  note c = createPayment_appends [OF assms(2)]
  have "db1 = snd (createPayment
           \<lparr>cpi_orderId = ppi_orderId input, cpi_paymentMethodId = [],
            cpi_amount = ppi_amount input, cpi_currency = Some (ppi_currency input),
            cpi_metadata = ppi_metadata input\<rparr> new_id t0 db)"
    by (simp add: assms(2))
  then have d: "db1 = db\<lparr>payments := sql_insert (fst (createPayment
           \<lparr>cpi_orderId = ppi_orderId input, cpi_paymentMethodId = [],
            cpi_amount = ppi_amount input, cpi_currency = Some (ppi_currency input),
            cpi_metadata = ppi_metadata input\<rparr> new_id t0 db)) (payments db)\<rparr>"
    by (simp add: createPayment_def Let_def)
  have d1: "db1 = db\<lparr>payments := payments db @ [payment]\<rparr>"
    using d by (simp add: assms(2) sql_insert_def)
  have run: "processPayment gws input new_id t0 t1 t2 db =
           (Inl (Error (''Payment gateway not registered: ''
                   @ gateway_name (ppi_paymentMethodType input))),
            db\<lparr>payments := payments db @ [payment]\<rparr>)"
    unfolding processPayment_unfold [OF assms(2)] assms(1) by (simp add: d1)
  have later: "payment \<in> set (payments (snd (processPayment gws' input' new_id' t0' t1' t2' later)))"
    if "payment \<in> set (payments later)" "new_id' \<noteq> new_id"
    for gws' input' new_id' t0' t1' t2' later
    using that by (intro processPayment_keeps_other_rows) (simp_all add: c(1))
  show ?thesis
    using run c(1) c(2) later processRefund_payments by blast
qed

theorem processPayment_unregistered_gateway_witness:
  "paypal_only (ppi_paymentMethodType charge) = None
   \<and> processPayment paypal_only charge ''pay_3'' 100 101 102 empty_ledger =
       (Inl (Error ''Payment gateway not registered: stripe''),
        \<lparr>payments = [\<lparr>pay_id = ''pay_3'', pay_orderId = ''order_1'', pay_paymentMethodId = [],
            pay_amount = 118, pay_currency = ''USD'', pay_status = PaymentPending,
            pay_transactionId = None, pay_errorMessage = None,
            pay_metadata = None, pay_createdAt = 100, pay_updatedAt = 100\<rparr>],
         refunds = []\<rparr>)"
proof -
  let ?c = "createPayment
           \<lparr>cpi_orderId = ppi_orderId charge, cpi_paymentMethodId = [],
            cpi_amount = ppi_amount charge, cpi_currency = Some (ppi_currency charge),
            cpi_metadata = ppi_metadata charge\<rparr> ''pay_3'' 100 empty_ledger"
  have g: "paypal_only (ppi_paymentMethodType charge) = None"
    by (simp add: paypal_only_def registerGateway_def charge_def)
  note t = processPayment_unregistered_gateway [where gws = paypal_only and input = charge
      and new_id = "''pay_3''" and ?t0.0 = 100 and ?t1.0 = 101 and ?t2.0 = 102
      and db = empty_ledger and payment = "fst ?c" and ?db1.0 = "snd ?c",
      OF g prod.collapse [symmetric]]
  from t have "processPayment paypal_only charge ''pay_3'' 100 101 102 empty_ledger =
           (Inl (Error (''Payment gateway not registered: ''
                   @ gateway_name (ppi_paymentMethodType charge))),
            empty_ledger\<lparr>payments := payments empty_ledger @ [fst ?c]\<rparr>)"
    by (rule conjunct1)
  then show ?thesis
    using g by (simp add: charge_def empty_ledger_def createPayment_def Let_def or_null_def)
qed

lemma getRefund_after_update:
  assumes "\<And>r. ref_id (f r) = ref_id r"
  shows "getRefund rid (db\<lparr>refunds := sql_update (\<lambda>r. ref_id r = rid) f (refunds db)\<rparr>) =
         map_option f (getRefund rid db)"
  by (simp add: getRefund_def sql_first_update [where k = ref_id, OF assms])

text \<open>
  C7, as the code has it. \<open>processRefund\<close> throws, writing nothing, when the refund is
  missing, when the refund has no payment id, and when the payment is missing. A payment
  with no transaction id is not refused: with a gateway registered under \<open>'stripe'\<close>, its
  \<open>refund\<close> is called with the payment's transaction id, or with the empty string when
  there is none, the refund's amount and the payment's currency. When the call resolves,
  the refund is returned and stored completed with the gateway's transaction id; when it
  throws, the refund is stored failed and the same value is thrown.
\<close>

theorem processRefund_outcomes:
  "(getRefund rid db = None \<longrightarrow>
      processRefund gws rid t1 t2 db = (Inl (Error (''Refund not found: '' @ rid)), db))
   \<and> (\<forall>rf. getRefund rid db = Some rf \<and> or_null (ref_paymentId rf) = None \<longrightarrow>
      processRefund gws rid t1 t2 db = (Inl (Error ''Cannot refund payment without payment ID''), db))
   \<and> (\<forall>rf pid. getRefund rid db = Some rf \<and> or_null (ref_paymentId rf) = Some pid
        \<and> getPayment pid db = None \<longrightarrow>
      processRefund gws rid t1 t2 db = (Inl (Error (''Payment not found: '' @ pid)), db))
   \<and> (\<forall>rf pid payment gateway tx.
        getRefund rid db = Some rf \<and> or_null (ref_paymentId rf) = Some pid
        \<and> getPayment pid db = Some payment \<and> gws Stripe = Some gateway
        \<and> gw_refund gateway
             \<lparr>gr_transactionId = (case pay_transactionId payment of Some t \<Rightarrow> t | None \<Rightarrow> []),
              gr_amount = ref_amount rf, gr_currency = pay_currency payment\<rparr> = Inr tx \<longrightarrow>
      fst (processRefund gws rid t1 t2 db) =
        Inr (rf\<lparr>ref_status := RefundCompleted, ref_transactionId := Some tx, ref_updatedAt := t2\<rparr>)
      \<and> getRefund rid (snd (processRefund gws rid t1 t2 db)) =
        Some (rf\<lparr>ref_status := RefundCompleted, ref_transactionId := Some tx, ref_updatedAt := t1\<rparr>))
   \<and> (\<forall>rf pid payment gateway error.
        getRefund rid db = Some rf \<and> or_null (ref_paymentId rf) = Some pid
        \<and> getPayment pid db = Some payment \<and> gws Stripe = Some gateway
        \<and> gw_refund gateway
             \<lparr>gr_transactionId = (case pay_transactionId payment of Some t \<Rightarrow> t | None \<Rightarrow> []),
              gr_amount = ref_amount rf, gr_currency = pay_currency payment\<rparr> = Inl error \<longrightarrow>
      fst (processRefund gws rid t1 t2 db) = Inl error
      \<and> getRefund rid (snd (processRefund gws rid t1 t2 db)) =
        Some (rf\<lparr>ref_status := RefundFailed, ref_updatedAt := t1\<rparr>))"
proof -
  have tid: "(case or_null x of Some t \<Rightarrow> t | None \<Rightarrow> []) = (case x of Some t \<Rightarrow> t | None \<Rightarrow> [])"
    for x :: "string option"
    by (simp add: or_null_def split: option.split)
  show ?thesis
    by (simp add: processRefund_def tid getRefund_after_update split: option.split sum.split)
qed
lemma ledger_lookups:
  "getRefund ''ref_1'' ledger = Some
       \<lparr>ref_id = ''ref_1'', ref_orderId = ''order_1'', ref_paymentId = Some ''pay_1'',
        ref_amount = 18, ref_reason = None, ref_status = RefundPending,
        ref_transactionId = None, ref_createdAt = 200, ref_updatedAt = 200\<rparr>"
  "getRefund ''ref_2'' ledger = Some
       \<lparr>ref_id = ''ref_2'', ref_orderId = ''order_2'', ref_paymentId = Some ''pay_2'',
        ref_amount = 40, ref_reason = None, ref_status = RefundPending,
        ref_transactionId = None, ref_createdAt = 210, ref_updatedAt = 210\<rparr>"
  "getRefund ''ref_3'' ledger = Some
       \<lparr>ref_id = ''ref_3'', ref_orderId = ''order_1'', ref_paymentId = Some ''pay_1'',
        ref_amount = 0, ref_reason = None, ref_status = RefundPending,
        ref_transactionId = None, ref_createdAt = 220, ref_updatedAt = 220\<rparr>"
  "getRefund ''ref_4'' ledger = Some
       \<lparr>ref_id = ''ref_4'', ref_orderId = ''order_1'', ref_paymentId = None,
        ref_amount = 5, ref_reason = None, ref_status = RefundPending,
        ref_transactionId = None, ref_createdAt = 230, ref_updatedAt = 230\<rparr>"
  "getRefund ''ref_5'' ledger = Some
       \<lparr>ref_id = ''ref_5'', ref_orderId = ''order_1'', ref_paymentId = Some ''pay_9'',
        ref_amount = 5, ref_reason = None, ref_status = RefundPending,
        ref_transactionId = None, ref_createdAt = 240, ref_updatedAt = 240\<rparr>"
  "getRefund ''ref_9'' ledger = None"
  "getPayment ''pay_1'' ledger = Some
       \<lparr>pay_id = ''pay_1'', pay_orderId = ''order_1'', pay_paymentMethodId = [],
        pay_amount = 118, pay_currency = ''USD'', pay_status = PaymentCompleted,
        pay_transactionId = Some ''ch_order_1'', pay_errorMessage = None,
        pay_metadata = None, pay_createdAt = 100, pay_updatedAt = 101\<rparr>"
  "getPayment ''pay_2'' ledger = Some
       \<lparr>pay_id = ''pay_2'', pay_orderId = ''order_2'', pay_paymentMethodId = [],
        pay_amount = 40, pay_currency = ''EUR'', pay_status = PaymentPending,
        pay_transactionId = None, pay_errorMessage = None,
        pay_metadata = None, pay_createdAt = 110, pay_updatedAt = 110\<rparr>"
  "getPayment ''pay_9'' ledger = None"
  by (simp_all add: getRefund_def getPayment_def sql_first_def ledger_def)

lemma stripe_only_Stripe: "stripe_only Stripe = Some test_gateway"
  by (simp add: stripe_only_def registerGateway_def)

theorem processRefund_outcomes_witness:
  "getRefund ''ref_9'' ledger = None
   \<and> processRefund stripe_only ''ref_9'' 300 301 ledger = (Inl (Error ''Refund not found: ref_9''), ledger)
   \<and> map_option ref_paymentId (getRefund ''ref_4'' ledger) = Some None
   \<and> processRefund stripe_only ''ref_4'' 300 301 ledger =
       (Inl (Error ''Cannot refund payment without payment ID''), ledger)
   \<and> map_option ref_paymentId (getRefund ''ref_5'' ledger) = Some (Some ''pay_9'')
   \<and> getPayment ''pay_9'' ledger = None
   \<and> processRefund stripe_only ''ref_5'' 300 301 ledger = (Inl (Error ''Payment not found: pay_9''), ledger)
   \<and> fst (processRefund stripe_only ''ref_1'' 300 301 ledger) = Inr
       \<lparr>ref_id = ''ref_1'', ref_orderId = ''order_1'', ref_paymentId = Some ''pay_1'',
        ref_amount = 18, ref_reason = None, ref_status = RefundCompleted,
        ref_transactionId = Some ''re_ch_order_1'', ref_createdAt = 200, ref_updatedAt = 301\<rparr>
   \<and> map_option ref_transactionId
        (getRefund ''ref_1'' (snd (processRefund stripe_only ''ref_1'' 300 301 ledger)))
       = Some (Some ''re_ch_order_1'')
   \<and> fst (processRefund stripe_only ''ref_3'' 300 301 ledger) = Inl (NonError ''timeout'')
   \<and> map_option ref_status
        (getRefund ''ref_3'' (snd (processRefund stripe_only ''ref_3'' 300 301 ledger)))
       = Some RefundFailed"
proof -
  note t1 = processRefund_outcomes [of "''ref_9''" ledger stripe_only 300 301]
  note t4 = processRefund_outcomes [of "''ref_4''" ledger stripe_only 300 301]
  note t5 = processRefund_outcomes [of "''ref_5''" ledger stripe_only 300 301]
  note t6 = processRefund_outcomes [of "''ref_1''" ledger stripe_only 300 301]
  note t3 = processRefund_outcomes [of "''ref_3''" ledger stripe_only 300 301]
  have "processRefund stripe_only ''ref_9'' 300 301 ledger = (Inl (Error ''Refund not found: ref_9''), ledger)"
    using t1 by (simp add: ledger_lookups)
  moreover have "processRefund stripe_only ''ref_4'' 300 301 ledger =
       (Inl (Error ''Cannot refund payment without payment ID''), ledger)"
    using t4 by (simp add: ledger_lookups or_null_def)
  moreover have "processRefund stripe_only ''ref_5'' 300 301 ledger =
       (Inl (Error ''Payment not found: pay_9''), ledger)"
    using t5 by (simp add: ledger_lookups or_null_def)
  moreover have "fst (processRefund stripe_only ''ref_1'' 300 301 ledger) = Inr
       \<lparr>ref_id = ''ref_1'', ref_orderId = ''order_1'', ref_paymentId = Some ''pay_1'',
        ref_amount = 18, ref_reason = None, ref_status = RefundCompleted,
        ref_transactionId = Some ''re_ch_order_1'', ref_createdAt = 200, ref_updatedAt = 301\<rparr>
     \<and> getRefund ''ref_1'' (snd (processRefund stripe_only ''ref_1'' 300 301 ledger)) = Some
       \<lparr>ref_id = ''ref_1'', ref_orderId = ''order_1'', ref_paymentId = Some ''pay_1'',
        ref_amount = 18, ref_reason = None, ref_status = RefundCompleted,
        ref_transactionId = Some ''re_ch_order_1'', ref_createdAt = 200, ref_updatedAt = 300\<rparr>"
    using t6 by (simp add: ledger_lookups or_null_def stripe_only_Stripe test_gateway_def)
  moreover have "fst (processRefund stripe_only ''ref_3'' 300 301 ledger) = Inl (NonError ''timeout'')
     \<and> getRefund ''ref_3'' (snd (processRefund stripe_only ''ref_3'' 300 301 ledger)) = Some
       \<lparr>ref_id = ''ref_3'', ref_orderId = ''order_1'', ref_paymentId = Some ''pay_1'',
        ref_amount = 0, ref_reason = None, ref_status = RefundFailed,
        ref_transactionId = None, ref_createdAt = 220, ref_updatedAt = 300\<rparr>"
    using t3 by (simp add: ledger_lookups or_null_def stripe_only_Stripe test_gateway_def)
  ultimately show ?thesis
    by (simp add: ledger_lookups)
qed

text \<open>
  C7, as the spec states it, fails: the payment \<open>pay_2\<close> has no transaction id, and the
  refund \<open>ref_2\<close> against it is not refused. The gateway is called with the empty
  transaction id and the refund comes back completed.
\<close>

theorem processRefund_without_transactionId_counterexample:
  "map_option pay_transactionId (getPayment ''pay_2'' ledger) = Some None
   \<and> fst (processRefund stripe_only ''ref_2'' 300 301 ledger) = Inr
       \<lparr>ref_id = ''ref_2'', ref_orderId = ''order_2'', ref_paymentId = Some ''pay_2'',
        ref_amount = 40, ref_reason = None, ref_status = RefundCompleted,
        ref_transactionId = Some ''re_'', ref_createdAt = 210, ref_updatedAt = 301\<rparr>"
  by (simp add: processRefund_def ledger_lookups or_null_def stripe_only_Stripe test_gateway_def)
text \<open>
  C9. \<open>processRefund\<close> looks the gateway up under the fixed key \<open>'stripe'\<close>: its result
  depends on the registry through that entry alone. With no gateway under \<open>'stripe'\<close>,
  whatever else is registered, no call succeeds and none writes; a call for a refund whose
  payment is on record throws \<open>Error('Payment gateway not available for refunds')\<close>
  (a call that finds no refund, no payment id or no payment has thrown before the lookup).
\<close>

theorem processRefund_needs_stripe:
  "(\<forall>gws'. gws' Stripe = gws Stripe \<longrightarrow>
       processRefund gws' rid t1 t2 db = processRefund gws rid t1 t2 db)
   \<and> (gws Stripe = None \<longrightarrow>
       (\<exists>e. fst (processRefund gws rid t1 t2 db) = Inl e)
       \<and> snd (processRefund gws rid t1 t2 db) = db
       \<and> (\<forall>rf pid payment.
             getRefund rid db = Some rf \<and> or_null (ref_paymentId rf) = Some pid
             \<and> getPayment pid db = Some payment \<longrightarrow>
             processRefund gws rid t1 t2 db =
               (Inl (Error ''Payment gateway not available for refunds''), db)))"
  by (simp add: processRefund_def split: option.split sum.split)

theorem processRefund_needs_stripe_witness:
  "paypal_only Stripe = None \<and> paypal_only Paypal = Some test_gateway
   \<and> map_option ref_paymentId (getRefund ''ref_1'' ledger) = Some (Some ''pay_1'')
   \<and> map_option pay_id (getPayment ''pay_1'' ledger) = Some ''pay_1''
   \<and> processRefund paypal_only ''ref_1'' 300 301 ledger =
       (Inl (Error ''Payment gateway not available for refunds''), ledger)
   \<and> processRefund (registerGateway Square test_gateway paypal_only) ''ref_1'' 300 301 ledger =
       (Inl (Error ''Payment gateway not available for refunds''), ledger)"
proof -
  have g: "paypal_only Stripe = None" "paypal_only Paypal = Some test_gateway"
    "registerGateway Square test_gateway paypal_only Stripe = paypal_only Stripe"
    by (simp_all add: paypal_only_def registerGateway_def)
  note t = processRefund_needs_stripe [of paypal_only "''ref_1''" 300 301 ledger]
  have a: "processRefund paypal_only ''ref_1'' 300 301 ledger =
       (Inl (Error ''Payment gateway not available for refunds''), ledger)"
    using t g(1) by (simp add: ledger_lookups or_null_def)
  have "processRefund (registerGateway Square test_gateway paypal_only) ''ref_1'' 300 301 ledger =
        processRefund paypal_only ''ref_1'' 300 301 ledger"
    using t g(3) by blast
  then show ?thesis
    using a g by (simp add: ledger_lookups)
qed

subsection \<open>Download links\<close>





lemma distinct_key_eq:
  assumes "distinct (map k rows)" "r \<in> set rows" "r' \<in> set rows" "k r = k r'"
  shows "r = r'"
  using assms by (meson distinct_map inj_onD)













lemma shop_state:
  "shop = \<lparr>digital_downloads =
             [\<lparr>dl_id = ''dl_1'', dl_productId = ''p1'', dl_fileName = ''book.pdf'',
               dl_filePath = ''/books'', dl_fileSize = Some 2048,
               dl_mimeType = Some ''application/pdf'',
               dl_r2Key = ''digital-downloads/dl_1/book.pdf'', dl_downloadLimit = None,
               dl_expirationDays = None, dl_createdAt = 100\<rparr>],
           download_links =
             [\<lparr>link_id = ''link_1'', link_orderItemId = ''item_1'',
               link_digitalDownloadId = ''dl_1'', link_token = ''tok1'',
               link_downloadCount = 0, link_maxDownloads = Some 1,
               link_expiresAt = Some 605800, link_lastAccessedAt = None,
               link_createdAt = 1000\<rparr>],
           r2 = [''digital-downloads/dl_1/book.pdf'' \<mapsto>
                  \<lparr>r2_body = ''%PDF'', r2_contentType = ''application/pdf'',
                   r2_contentDisposition = ''attachment; filename=\"book.pdf\"''\<rparr>]\<rparr>"
  by (simp add: shop_def shop_ops_def empty_downloads_def ebook_def createDigitalDownload_def
      uploadFile_def getDigitalDownload_def createDownloadLink_def sql_insert_def sql_first_def
      Let_def real_or_null_def int_or_null_def or_null_def mime_or_default_def)







lemma createDownloadLink_result:
  assumes "createDownloadLink oi dd maxd days new_id token now db = (link, db')"
  shows "link = \<lparr>link_id = new_id, link_orderItemId = oi, link_digitalDownloadId = dd,
                 link_token = token, link_downloadCount = 0, link_maxDownloads = maxd,
                 link_expiresAt = (case int_or_null days of
                     Some d \<Rightarrow> Some (now + d * 24 * 60 * 60) | None \<Rightarrow> None),
                 link_lastAccessedAt = None, link_createdAt = now\<rparr>"
    and "download_links db' = download_links db @
           [link\<lparr>link_maxDownloads := real_or_null maxd,
                 link_expiresAt := int_or_null (link_expiresAt link)\<rparr>]"
proof -
  have l: "link = fst (createDownloadLink oi dd maxd days new_id token now db)"
    and d: "db' = snd (createDownloadLink oi dd maxd days new_id token now db)"
    by (simp_all add: assms)
  show "link = \<lparr>link_id = new_id, link_orderItemId = oi, link_digitalDownloadId = dd,
                 link_token = token, link_downloadCount = 0, link_maxDownloads = maxd,
                 link_expiresAt = (case int_or_null days of
                     Some d \<Rightarrow> Some (now + d * 24 * 60 * 60) | None \<Rightarrow> None),
                 link_lastAccessedAt = None, link_createdAt = now\<rparr>"
    unfolding l by (simp add: createDownloadLink_def Let_def)
  show "download_links db' = download_links db @
           [link\<lparr>link_maxDownloads := real_or_null maxd,
                 link_expiresAt := int_or_null (link_expiresAt link)\<rparr>]"
    unfolding l d by (simp add: createDownloadLink_def Let_def sql_insert_def)
qed

lemma sql_first_snoc_fresh:
  assumes "sql_first c rows = None" and "c r"
  shows "sql_first c (rows @ [r]) = Some r"
  using assms unfolding sql_first_def by (induction rows) (simp_all split: if_splits)

text \<open>
  C6, as the code has it. \<open>createDownloadLink\<close> with \<open>expirationDays = 0\<close> (as with none)
  produces a link with no \<open>expiresAt\<close>: zero is falsy in
  \<open>expirationDays ? now + ... : undefined\<close>. Looked up by its token, that link is never
  refused as expired, at any clock: the lookup returns it (or throws
  \<open>'Download limit reached'\<close> when \<open>maxDownloads\<close> is negative). With
  \<open>expirationDays = d\<close>, \<open>d\<close> not zero, the link's \<open>expiresAt\<close> is \<open>now + d * 86400\<close>,
  and once the clock is past that time the lookup throws \<open>'Download link has expired'\<close>,
  with one exception: when \<open>now + d * 86400\<close> is 0 the row stores null
  (\<open>link.expiresAt || null\<close>) and the link never expires either.
  (The token is new: no older row has it.)
\<close>

theorem createDownloadLink_expiry:
  assumes "sql_first (\<lambda>r. link_token r = token) (download_links db) = None"
    and "createDownloadLink oi dd maxd days new_id token now db = (link, db')"
  shows "(days = Some 0 \<or> days = None \<longrightarrow>
            link_expiresAt link = None
            \<and> (\<forall>t. getDownloadLinkByToken token t db' \<noteq> Inl (Error ''Download link has expired'')
                  \<and> getDownloadLinkByToken token t db' =
                      (if (case maxd of Some m \<Rightarrow> m < 0 | None \<Rightarrow> False)
                       then Inl (Error ''Download limit reached'')
                       else Inr (Some (link\<lparr>link_maxDownloads := real_or_null maxd\<rparr>)))))
     \<and> (\<forall>d. days = Some d \<and> d \<noteq> 0 \<longrightarrow>
            link_expiresAt link = Some (now + d * 86400)
            \<and> (\<forall>t. now + d * 86400 \<noteq> 0 \<and> now + d * 86400 < t \<longrightarrow>
                  getDownloadLinkByToken token t db' = Inl (Error ''Download link has expired''))
            \<and> (\<forall>t. now + d * 86400 = 0 \<longrightarrow>
                  getDownloadLinkByToken token t db' \<noteq> Inl (Error ''Download link has expired'')
                  \<and> getDownloadLinkByToken token t db' =
                      (if (case maxd of Some m \<Rightarrow> m < 0 | None \<Rightarrow> False)
                       then Inl (Error ''Download limit reached'')
                       else Inr (Some (link\<lparr>link_maxDownloads := real_or_null maxd,
                                            link_expiresAt := None\<rparr>)))))"
proof -
  note r = createDownloadLink_result [OF assms(2)]
  let ?row = "link\<lparr>link_maxDownloads := real_or_null maxd,
                   link_expiresAt := int_or_null (link_expiresAt link)\<rparr>"
  have tok: "link_token ?row = token"
    by (subst r(1)) simp
  have f: "sql_first (\<lambda>r. link_token r = token) (download_links db') = Some ?row"
    unfolding r(2) using assms(1) tok by (rule sql_first_snoc_fresh)
  have c: "link_downloadCount link = 0"
    by (subst r(1)) simp
  have unlimited: "getDownloadLinkByToken token t db' \<noteq> Inl (Error ''Download link has expired'')
         \<and> getDownloadLinkByToken token t db' =
              (if (case maxd of Some m \<Rightarrow> m < 0 | None \<Rightarrow> False)
               then Inl (Error ''Download limit reached'')
               else Inr (Some (link\<lparr>link_maxDownloads := real_or_null maxd,
                                    link_expiresAt := None\<rparr>)))"
    if "int_or_null (link_expiresAt link) = None" for t
    using that c
    by (simp add: getDownloadLinkByToken_def f int_or_null_def real_or_null_def
        split: option.split)
  have never: "link_expiresAt link = None
            \<and> (\<forall>t. getDownloadLinkByToken token t db' \<noteq> Inl (Error ''Download link has expired'')
                  \<and> getDownloadLinkByToken token t db' =
                      (if (case maxd of Some m \<Rightarrow> m < 0 | None \<Rightarrow> False)
                       then Inl (Error ''Download limit reached'')
                       else Inr (Some (link\<lparr>link_maxDownloads := real_or_null maxd\<rparr>))))"
    if "days = Some 0 \<or> days = None"
  proof -
    have n: "link_expiresAt link = None"
      using that by (subst r(1)) (auto simp: int_or_null_def)
    have same: "link\<lparr>link_maxDownloads := real_or_null maxd, link_expiresAt := None\<rparr>
                = link\<lparr>link_maxDownloads := real_or_null maxd\<rparr>"
      using n by simp
    have "int_or_null (link_expiresAt link) = None"
      by (simp add: n int_or_null_def)
    then show ?thesis
      using unlimited n by (simp only: same) simp
  qed
  have expires: "link_expiresAt link = Some (now + d * 86400)
            \<and> (\<forall>t. now + d * 86400 \<noteq> 0 \<and> now + d * 86400 < t \<longrightarrow>
                  getDownloadLinkByToken token t db' = Inl (Error ''Download link has expired''))
            \<and> (\<forall>t. now + d * 86400 = 0 \<longrightarrow>
                  getDownloadLinkByToken token t db' \<noteq> Inl (Error ''Download link has expired'')
                  \<and> getDownloadLinkByToken token t db' =
                      (if (case maxd of Some m \<Rightarrow> m < 0 | None \<Rightarrow> False)
                       then Inl (Error ''Download limit reached'')
                       else Inr (Some (link\<lparr>link_maxDownloads := real_or_null maxd,
                                            link_expiresAt := None\<rparr>))))"
    if "days = Some d \<and> d \<noteq> 0" for d
  proof -
    have n: "link_expiresAt link = Some (now + d * 86400)"
      using that by (subst r(1)) (simp add: int_or_null_def)
    have past: "getDownloadLinkByToken token t db' = Inl (Error ''Download link has expired'')"
      if "now + d * 86400 \<noteq> 0 \<and> now + d * 86400 < t" for t
      using that by (simp add: n getDownloadLinkByToken_def f int_or_null_def)
    have zero: "getDownloadLinkByToken token t db' \<noteq> Inl (Error ''Download link has expired'')
                  \<and> getDownloadLinkByToken token t db' =
                      (if (case maxd of Some m \<Rightarrow> m < 0 | None \<Rightarrow> False)
                       then Inl (Error ''Download limit reached'')
                       else Inr (Some (link\<lparr>link_maxDownloads := real_or_null maxd,
                                            link_expiresAt := None\<rparr>)))"
      if "now + d * 86400 = 0" for t
      by (rule unlimited) (simp add: n that int_or_null_def)
    show ?thesis
      using n past zero by blast
  qed
  show ?thesis
    using never expires by blast
qed

theorem createDownloadLink_expiry_witness:
  "sql_first (\<lambda>r. link_token r = ''tok2'') (download_links shop) = None
   \<and> link_expiresAt (fst (createDownloadLink ''item_2'' ''dl_1'' None (Some 0) ''link_2'' ''tok2'' 1000 shop))
       = None
   \<and> getDownloadLinkByToken ''tok2'' 999999
        (snd (createDownloadLink ''item_2'' ''dl_1'' None (Some 0) ''link_2'' ''tok2'' 1000 shop)) =
       Inr (Some \<lparr>link_id = ''link_2'', link_orderItemId = ''item_2'',
                  link_digitalDownloadId = ''dl_1'', link_token = ''tok2'',
                  link_downloadCount = 0, link_maxDownloads = None, link_expiresAt = None,
                  link_lastAccessedAt = None, link_createdAt = 1000\<rparr>)
   \<and> link_expiresAt (fst (createDownloadLink ''item_2'' ''dl_1'' None (Some 1) ''link_2'' ''tok2'' 1000 shop))
       = Some 87400
   \<and> (87400::int) < 87401
   \<and> getDownloadLinkByToken ''tok2'' 87401
        (snd (createDownloadLink ''item_2'' ''dl_1'' None (Some 1) ''link_2'' ''tok2'' 1000 shop)) =
       Inl (Error ''Download link has expired'')
   \<and> link_expiresAt (fst (createDownloadLink ''item_2'' ''dl_1'' None (Some (- 1)) ''link_2'' ''tok2''
         86400 shop)) = Some 0
   \<and> getDownloadLinkByToken ''tok2'' 999999
        (snd (createDownloadLink ''item_2'' ''dl_1'' None (Some (- 1)) ''link_2'' ''tok2'' 86400 shop)) =
       Inr (Some \<lparr>link_id = ''link_2'', link_orderItemId = ''item_2'',
                  link_digitalDownloadId = ''dl_1'', link_token = ''tok2'',
                  link_downloadCount = 0, link_maxDownloads = None, link_expiresAt = None,
                  link_lastAccessedAt = None, link_createdAt = 86400\<rparr>)"
proof -
  let ?c0 = "createDownloadLink ''item_2'' ''dl_1'' None (Some 0) ''link_2'' ''tok2'' 1000 shop"
  let ?c1 = "createDownloadLink ''item_2'' ''dl_1'' None (Some 1) ''link_2'' ''tok2'' 1000 shop"
  let ?cz = "createDownloadLink ''item_2'' ''dl_1'' None (Some (- 1)) ''link_2'' ''tok2'' 86400 shop"
  have f: "sql_first (\<lambda>r. link_token r = ''tok2'') (download_links shop) = None"
    by (simp add: shop_state sql_first_def)
  note z = createDownloadLink_expiry [OF f prod.collapse [symmetric, of ?c0]]
  note o = createDownloadLink_expiry [OF f prod.collapse [symmetric, of ?c1]]
  note n = createDownloadLink_expiry [OF f prod.collapse [symmetric, of ?cz]]
  have l0: "fst ?c0 = \<lparr>link_id = ''link_2'', link_orderItemId = ''item_2'',
                  link_digitalDownloadId = ''dl_1'', link_token = ''tok2'',
                  link_downloadCount = 0, link_maxDownloads = None, link_expiresAt = None,
                  link_lastAccessedAt = None, link_createdAt = 1000\<rparr>"
    by (simp add: createDownloadLink_def Let_def int_or_null_def)
  have lz: "fst ?cz = \<lparr>link_id = ''link_2'', link_orderItemId = ''item_2'',
                  link_digitalDownloadId = ''dl_1'', link_token = ''tok2'',
                  link_downloadCount = 0, link_maxDownloads = None, link_expiresAt = Some 0,
                  link_lastAccessedAt = None, link_createdAt = 86400\<rparr>"
    by (simp add: createDownloadLink_def Let_def int_or_null_def)
  have "link_expiresAt (fst ?c0) = None"
    using z by simp
  moreover have "getDownloadLinkByToken ''tok2'' 999999 (snd ?c0) =
       Inr (Some ((fst ?c0)\<lparr>link_maxDownloads := real_or_null None\<rparr>))"
    using z by simp
  moreover have "link_expiresAt (fst ?c1) = Some 87400"
    using o by simp
  moreover have "getDownloadLinkByToken ''tok2'' 87401 (snd ?c1) = Inl (Error ''Download link has expired'')"
    using o by simp
  moreover have "link_expiresAt (fst ?cz) = Some 0"
    using n by simp
  moreover have "getDownloadLinkByToken ''tok2'' 999999 (snd ?cz) =
       Inr (Some ((fst ?cz)\<lparr>link_maxDownloads := real_or_null None, link_expiresAt := None\<rparr>))"
    using n by simp
  ultimately show ?thesis
    using f by (simp add: l0 lz real_or_null_def)
qed

text \<open>
  C6, as the spec states it, fails: the link created with \<open>expirationDays = 0\<close> at clock
  1000 has no \<open>expiresAt\<close> (not 1000), and at clock 2000, past the creation time, the
  lookup returns the link instead of throwing.
\<close>

theorem createDownloadLink_zero_days_counterexample:
  "link_expiresAt (fst (createDownloadLink ''item_2'' ''dl_1'' None (Some 0) ''link_2'' ''tok2'' 1000
       empty_downloads)) \<noteq> Some 1000
   \<and> getDownloadLinkByToken ''tok2'' 2000
        (snd (createDownloadLink ''item_2'' ''dl_1'' None (Some 0) ''link_2'' ''tok2'' 1000
               empty_downloads)) =
       Inr (Some \<lparr>link_id = ''link_2'', link_orderItemId = ''item_2'',
                  link_digitalDownloadId = ''dl_1'', link_token = ''tok2'',
                  link_downloadCount = 0, link_maxDownloads = None, link_expiresAt = None,
                  link_lastAccessedAt = None, link_createdAt = 1000\<rparr>)"
  by (simp add: createDownloadLink_def Let_def int_or_null_def real_or_null_def sql_insert_def
      empty_downloads_def getDownloadLinkByToken_def sql_first_def)

subsection \<open>Cart totals\<close>

lemma sum_list_insort_key:
  "sum_list (map f (insort_key k x xs)) = f x + sum_list (map f xs)" for f :: "'a \<Rightarrow> real"
  by (induction xs) simp_all

lemma sum_list_sort_key:
  "sum_list (map f (sort_key k xs)) = sum_list (map f xs)" for f :: "'a \<Rightarrow> real"
  by (induction xs) (simp_all add: sum_list_insort_key)

lemma foldl_add_sum_list:
  "foldl (\<lambda>s x. s + f x) a xs = a + sum_list (map f xs)" for a :: real
  by (induction xs arbitrary: a) simp_all

lemma getCart_after_update:
  assumes "\<And>c. cart_id (f c) = cart_id c"
  shows "getCart cid (db\<lparr>carts := sql_update (\<lambda>c. cart_id c = cid) f (carts db)\<rparr>) =
         map_option f (getCart cid db)"
  by (simp add: getCart_def sql_first_update [where k = cart_id, OF assms])

text \<open>What a recalculation that did not throw leaves in the cart's row.\<close>

lemma recalculateCart_post:
  assumes "recalculateCart cid now db = (Inr (), db')"
  shows "\<exists>cart. getCart cid db' = Some cart
     \<and> cart_totalTax cart =
         items_subtotal cid db'
           * (tax_rate_or_0 (sql_first (\<lambda>s. store_id s = cart_storeId cart) (stores db')) / 100)
     \<and> cart_totalPrice cart =
         items_subtotal cid db' + cart_totalTax cart + cart_totalShipping cart
           - cart_couponDiscount cart"
proof (cases "getCart cid db")
  case None
  then show ?thesis using assms by (simp add: recalculateCart_def)
next
  case (Some cart)
  let ?subtotal = "foldl (\<lambda>subtotal item. subtotal + item_price item * item_quantity item)
                     0 (getItems cid db)"
  let ?tax = "?subtotal * (tax_rate_or_0
                 (sql_first (\<lambda>s. store_id s = cart_storeId cart) (stores db)) / 100)"
  let ?total = "?subtotal + ?tax + cart_totalShipping cart - cart_couponDiscount cart"
  let ?f = "\<lambda>c. c\<lparr>cart_totalPrice := ?total, cart_totalTax := ?tax, cart_updatedAt := now\<rparr>"
  have d: "db' = db\<lparr>carts := sql_update (\<lambda>c. cart_id c = cid) ?f (carts db)\<rparr>"
    using assms Some by (simp add: recalculateCart_def Let_def)
  have g: "getCart cid db' = Some (?f cart)"
    unfolding d by (subst getCart_after_update) (simp_all add: Some)
  have i: "getItems cid db' = getItems cid db" and s: "stores db' = stores db"
    unfolding d by (simp_all add: getItems_def)
  have c: "cart_items db' = cart_items db"
    unfolding d by simp
  have sub: "items_subtotal cid db' = ?subtotal"
    by (simp add: items_subtotal_def c getItems_def foldl_add_sum_list sum_list_sort_key)
  show ?thesis
    unfolding g sub s by simp
qed

lemma run_cart_op_recalculates:
  assumes "run_cart_op op db = (Inr (), db')" and "recalculated_cart op db = Some cid"
  shows "\<exists>now db1. recalculateCart cid now db1 = (Inr (), db')"
proof (cases op)
  case (AddItem c input new_id t0 t1)
  then show ?thesis
    using assms
    by (simp add: addItem_def Let_def split: prod.splits sum.splits) blast
next
  case (UpdateItem iid quantity now)
  then show ?thesis
    using assms
    by (simp add: updateItem_def removeItem_def split: option.splits if_splits) blast+
next
  case (RemoveItem iid now)
  then show ?thesis
    using assms by (simp add: removeItem_def split: option.splits) blast
next
  case (ApplyCoupon c code discount t0 t1)
  then show ?thesis using assms by (simp add: applyCoupon_def) blast
next
  case (RemoveCoupon c t0 t1)
  then show ?thesis using assms by (simp add: removeCoupon_def) blast
next
  case (SetShipping c cost t0 t1)
  then show ?thesis using assms by (simp add: setShipping_def) blast
qed

text \<open>
  C1. Take any sequence of \<open>addItem\<close>, \<open>updateItem\<close>, \<open>removeItem\<close>, \<open>applyCoupon\<close>,
  \<open>removeCoupon\<close> and \<open>setShipping\<close> requests and a final such request whose
  recalculation ran (it did not throw). In the database it leaves, the cart it
  recalculated has \<open>totalTax = subtotal * (store.taxRate / 100)\<close> for the cart's store
  (a cart whose store is not on record has tax zero) and
  \<open>totalPrice = subtotal + totalTax + totalShipping - couponDiscount\<close>, where the subtotal
  is the sum of \<open>price * quantity\<close> over the rows of \<open>cart_items\<close> that belong to the
  cart then (those with its id as \<open>cart_id\<close>, and no others).
\<close>

theorem cart_total_identity:
  assumes "db = run_cart_ops ops db0"
    and "run_cart_op op db = (Inr (), db')"
    and "recalculated_cart op db = Some cid"
  shows "\<exists>cart. getCart cid db' = Some cart
     \<and> (\<forall>store. sql_first (\<lambda>s. store_id s = cart_storeId cart) (stores db') = Some store \<longrightarrow>
           cart_totalTax cart = items_subtotal cid db' * (store_taxRate store / 100))
     \<and> (sql_first (\<lambda>s. store_id s = cart_storeId cart) (stores db') = None \<longrightarrow>
           cart_totalTax cart = 0)
     \<and> cart_totalPrice cart =
         items_subtotal cid db' + cart_totalTax cart + cart_totalShipping cart
           - cart_couponDiscount cart"
proof -
  obtain now db1 where "recalculateCart cid now db1 = (Inr (), db')"
    using run_cart_op_recalculates [OF assms(2) assms(3)] by blast
  then obtain cart where c: "getCart cid db' = Some cart"
    and t: "cart_totalTax cart =
         items_subtotal cid db'
           * (tax_rate_or_0 (sql_first (\<lambda>s. store_id s = cart_storeId cart) (stores db')) / 100)"
    and p: "cart_totalPrice cart =
         items_subtotal cid db' + cart_totalTax cart + cart_totalShipping cart
           - cart_couponDiscount cart"
    using recalculateCart_post by blast
  have some: "cart_totalTax cart = items_subtotal cid db' * (store_taxRate store / 100)"
    if "sql_first (\<lambda>s. store_id s = cart_storeId cart) (stores db') = Some store" for store
    using t that by (simp add: tax_rate_or_0_def)
  have none: "cart_totalTax cart = 0"
    if "sql_first (\<lambda>s. store_id s = cart_storeId cart) (stores db') = None"
    using t that by (simp add: tax_rate_or_0_def)
  show ?thesis
    by (rule exI [of _ cart]) (intro conjI allI impI, fact c, erule some, erule none, fact p)
qed

lemmas cart_method_defs =
  createCart_def getCart_def getItems_def recalculateCart_def addItem_def removeItem_def
  updateItem_def applyCoupon_def removeCoupon_def setShipping_def tax_rate_or_0_def
  sql_first_def sql_insert_def sql_update_def sql_delete_def or_null_def Let_def

lemma checkout_state:
  "checkout =
     \<lparr>carts = [\<lparr>cart_id = ''cart_1'', cart_storeId = ''s1'', cart_userId = Some ''u1'',
                cart_sessionId = None, cart_totalPrice = 65 / 2, cart_totalTax = 5 / 2,
                cart_totalShipping = 5, cart_couponCode = None, cart_couponDiscount = 0,
                cart_expiresAt = Some 2592100, cart_createdAt = 100, cart_updatedAt = 131\<rparr>],
      cart_items =
        [\<lparr>item_id = ''item_1'', item_cartId = ''cart_1'', item_productId = ''P1'',
          item_variantId = None, item_quantity = 2, item_price = 10, item_createdAt = 110\<rparr>,
         \<lparr>item_id = ''item_2'', item_cartId = ''cart_1'', item_productId = ''P2'',
          item_variantId = None, item_quantity = 1, item_price = 5, item_createdAt = 120\<rparr>],
      stores = [\<lparr>store_id = ''s1'', store_name = ''Shop'', store_slug = ''shop'',
                  store_description = None, store_logoUrl = None,
                  store_currency = ''USD'', store_taxRate = 10,
                  store_shippingEnabled = True, store_isActive = True,
                  store_settings = ''{}'', store_createdAt = 1, store_updatedAt = 1\<rparr>]\<rparr>"
  by (simp add: checkout_def scenario_def market_def cart_method_defs)

theorem cart_total_identity_witness:
  "fst (run_cart_op (ApplyCoupon ''cart_1'' ''SAVE3'' 3 140 141) checkout) = Inr ()
   \<and> recalculated_cart (ApplyCoupon ''cart_1'' ''SAVE3'' 3 140 141) checkout = Some ''cart_1''
   \<and> map_option cart_totalTax (getCart ''cart_1'' checkout) = Some (5 / 2)
   \<and> map_option cart_totalPrice (getCart ''cart_1'' checkout) = Some (65 / 2)
   \<and> items_subtotal ''cart_1''
        (snd (run_cart_op (ApplyCoupon ''cart_1'' ''SAVE3'' 3 140 141) checkout)) = 25
   \<and> map_option cart_totalTax (getCart ''cart_1''
        (snd (run_cart_op (ApplyCoupon ''cart_1'' ''SAVE3'' 3 140 141) checkout))) = Some (5 / 2)
   \<and> map_option cart_totalPrice (getCart ''cart_1''
        (snd (run_cart_op (ApplyCoupon ''cart_1'' ''SAVE3'' 3 140 141) checkout))) = Some (59 / 2)"
proof -
  let ?op = "ApplyCoupon ''cart_1'' ''SAVE3'' 3 140 141"
  define final where "final = snd (run_cart_op ?op checkout)"
  have ok: "fst (run_cart_op ?op checkout) = Inr ()"
    by (simp add: checkout_state cart_method_defs)
  then have run: "run_cart_op ?op checkout = (Inr (), final)"
    unfolding final_def by (metis prod.collapse)
  have target: "recalculated_cart ?op checkout = Some ''cart_1''"
    by simp
  have before: "getCart ''cart_1'' checkout = Some
      \<lparr>cart_id = ''cart_1'', cart_storeId = ''s1'', cart_userId = Some ''u1'',
       cart_sessionId = None, cart_totalPrice = 65 / 2, cart_totalTax = 5 / 2,
       cart_totalShipping = 5, cart_couponCode = None, cart_couponDiscount = 0,
       cart_expiresAt = Some 2592100, cart_createdAt = 100, cart_updatedAt = 131\<rparr>"
    by (simp add: checkout_state getCart_def sql_first_def)
  have items: "cart_items final = cart_items checkout" and st: "stores final = stores checkout"
    unfolding final_def
    by (simp_all add: applyCoupon_def recalculateCart_def Let_def split: option.split)
  have sub: "items_subtotal ''cart_1'' final = 25"
    by (simp only: items_subtotal_def items) (simp add: checkout_state)
  have store: "sql_first (\<lambda>s. store_id s = ''s1'') (stores final) = Some
      \<lparr>store_id = ''s1'', store_name = ''Shop'', store_slug = ''shop'',
       store_description = None, store_logoUrl = None,
       store_currency = ''USD'', store_taxRate = 10,
       store_shippingEnabled = True, store_isActive = True,
       store_settings = ''{}'', store_createdAt = 1, store_updatedAt = 1\<rparr>"
    by (simp only: st) (simp add: checkout_state sql_first_def)
  have facts: "map_option cart_storeId (getCart ''cart_1'' final) = Some ''s1''"
    "map_option cart_totalShipping (getCart ''cart_1'' final) = Some 5"
    "map_option cart_couponDiscount (getCart ''cart_1'' final) = Some 3"
    unfolding final_def by (simp_all add: checkout_state cart_method_defs)
  obtain cart where c: "getCart ''cart_1'' final = Some cart"
    and tax: "\<forall>store. sql_first (\<lambda>s. store_id s = cart_storeId cart) (stores final) = Some store \<longrightarrow>
           cart_totalTax cart = items_subtotal ''cart_1'' final * (store_taxRate store / 100)"
    and total: "cart_totalPrice cart =
         items_subtotal ''cart_1'' final + cart_totalTax cart + cart_totalShipping cart
           - cart_couponDiscount cart"
    using cart_total_identity [OF checkout_def run target] by blast
  have sid: "cart_storeId cart = ''s1''" and sh: "cart_totalShipping cart = 5"
    and cd: "cart_couponDiscount cart = 3"
    using facts c by simp_all
  have t: "cart_totalTax cart = 5 / 2"
    using tax store sub by (simp add: sid)
  have p: "cart_totalPrice cart = 59 / 2"
    using total by (simp add: t sub sh cd)
  have "items_subtotal ''cart_1'' final = 25
     \<and> map_option cart_totalTax (getCart ''cart_1'' final) = Some (5 / 2)
     \<and> map_option cart_totalPrice (getCart ''cart_1'' final) = Some (59 / 2)"
    by (simp add: sub c t p)
  then show ?thesis
    unfolding final_def using ok target before by simp
qed

subsection \<open>Expired carts\<close>

lemma find_filter_kept:
  assumes "distinct (map k rows)" and "r \<in> set rows" and "P r"
  shows "find (\<lambda>x. k x = k r) (filter P rows) = Some r"
  using assms by (induction rows) (auto simp: image_iff)

lemma find_filter_gone:
  assumes "distinct (map k rows)" and "r \<in> set rows" and "\<not> P r"
  shows "find (\<lambda>x. k x = k r) (filter P rows) = None"
proof -
  have "x = r" if "x \<in> set rows" "k x = k r" for x
    using assms(1) that(1) assms(2) that(2) by (rule distinct_key_eq)
  then show ?thesis
    using assms(3) by (auto simp: find_None_iff)
qed

lemma deleteExpiredCarts_tables:
  "carts (deleteExpiredCarts now db) = filter (\<lambda>c. \<not> cart_expired now c) (carts db)"
  "cart_items (deleteExpiredCarts now db) =
     filter (\<lambda>i. \<not> list_ex (\<lambda>k. cart_expired now k \<and> cart_id k = item_cartId i) (carts db))
       (cart_items db)"
  "stores (deleteExpiredCarts now db) = stores db"
  by (simp_all add: deleteExpiredCarts_def delete_from_carts_def sql_delete_def cart_expired_def)

lemma deleteExpiredCarts_expired:
  assumes "distinct (map cart_id (carts db))" and "cart \<in> set (carts db)"
    and "cart_expired now cart"
  shows "getCart (cart_id cart) (deleteExpiredCarts now db) = None"
    and "getItems (cart_id cart) (deleteExpiredCarts now db) = []"
proof -
  show "getCart (cart_id cart) (deleteExpiredCarts now db) = None"
    unfolding getCart_def sql_first_def deleteExpiredCarts_tables
    using assms by (intro find_filter_gone) simp_all
  have ex: "list_ex (\<lambda>k. cart_expired now k \<and> cart_id k = item_cartId i) (carts db)"
    if "item_cartId i = cart_id cart" for i
    unfolding list_ex_iff using assms(2,3) that by (intro bexI [of _ cart]) simp_all
  have "\<forall>i \<in> set (cart_items db).
          \<not> (\<not> list_ex (\<lambda>k. cart_expired now k \<and> cart_id k = item_cartId i) (carts db)
             \<and> item_cartId i = cart_id cart)"
  proof
    fix i
    show "\<not> (\<not> list_ex (\<lambda>k. cart_expired now k \<and> cart_id k = item_cartId i) (carts db)
             \<and> item_cartId i = cart_id cart)"
      using ex [of i] by blast
  qed
  then have "filter (\<lambda>i. item_cartId i = cart_id cart)
       (filter (\<lambda>i. \<not> list_ex (\<lambda>k. cart_expired now k \<and> cart_id k = item_cartId i) (carts db))
          (cart_items db)) = []"
    unfolding filter_filter filter_empty_conv .
  then show "getItems (cart_id cart) (deleteExpiredCarts now db) = []"
    unfolding getItems_def deleteExpiredCarts_tables by simp
qed

lemma deleteExpiredCarts_kept:
  assumes "distinct (map cart_id (carts db))" and "cart \<in> set (carts db)"
    and "\<not> cart_expired now cart"
  shows "getCart (cart_id cart) (deleteExpiredCarts now db) = Some cart"
    and "getItems (cart_id cart) (deleteExpiredCarts now db) = getItems (cart_id cart) db"
proof -
  show "getCart (cart_id cart) (deleteExpiredCarts now db) = Some cart"
    unfolding getCart_def sql_first_def deleteExpiredCarts_tables
    using assms by (intro find_filter_kept) simp_all
  have "\<not> list_ex (\<lambda>k. cart_expired now k \<and> cart_id k = item_cartId i) (carts db)"
    if i: "item_cartId i = cart_id cart" for i
  proof
    assume "list_ex (\<lambda>k. cart_expired now k \<and> cart_id k = item_cartId i) (carts db)"
    then obtain k where k: "k \<in> set (carts db)" "cart_expired now k" "cart_id k = item_cartId i"
      unfolding list_ex_iff by blast
    have "k = cart"
      using assms(1) k(1) assms(2) by (rule distinct_key_eq) (simp add: k(3) i)
    then show False using k(2) assms(3) by simp
  qed
  then have "filter (\<lambda>i. item_cartId i = cart_id cart)
       (filter (\<lambda>i. \<not> list_ex (\<lambda>k. cart_expired now k \<and> cart_id k = item_cartId i) (carts db))
          (cart_items db)) = filter (\<lambda>i. item_cartId i = cart_id cart) (cart_items db)"
    unfolding filter_filter by (intro filter_cong refl) blast
  then show "getItems (cart_id cart) (deleteExpiredCarts now db) = getItems (cart_id cart) db"
    unfolding getItems_def deleteExpiredCarts_tables by simp
qed

text \<open>
  C8. \<open>deleteExpiredCarts\<close> deletes exactly the carts whose \<open>expiresAt\<close> is earlier than
  now: such a cart is gone, and with it all its items (the cascade of the schema); a cart
  that has not expired is read back as it was, with the items it had. Cart ids are the
  primary key, so they are distinct.
\<close>

theorem deleteExpiredCarts_purges:
  assumes "distinct (map cart_id (carts db))"
  shows "carts (deleteExpiredCarts now db) = filter (\<lambda>c. \<not> cart_expired now c) (carts db)
     \<and> (\<forall>cart \<in> set (carts db). cart_expired now cart \<longrightarrow>
           getCart (cart_id cart) (deleteExpiredCarts now db) = None
           \<and> getItems (cart_id cart) (deleteExpiredCarts now db) = [])
     \<and> (\<forall>cart \<in> set (carts db). \<not> cart_expired now cart \<longrightarrow>
           getCart (cart_id cart) (deleteExpiredCarts now db) = Some cart
           \<and> getItems (cart_id cart) (deleteExpiredCarts now db) = getItems (cart_id cart) db)
     \<and> stores (deleteExpiredCarts now db) = stores db"
  using deleteExpiredCarts_expired [OF assms] deleteExpiredCarts_kept [OF assms]
  by (simp add: deleteExpiredCarts_tables)

theorem deleteExpiredCarts_purges_witness:
  "distinct (map cart_id (carts two_carts))
   \<and> map (\<lambda>c. (cart_id c, cart_expired 1000 c)) (carts two_carts) =
       [(''cart_a'', True), (''cart_b'', False)]
   \<and> map cart_id (carts (deleteExpiredCarts 1000 two_carts)) = [''cart_b'']
   \<and> getCart ''cart_a'' (deleteExpiredCarts 1000 two_carts) = None
   \<and> getItems ''cart_a'' (deleteExpiredCarts 1000 two_carts) = []
   \<and> getCart ''cart_b'' (deleteExpiredCarts 1000 two_carts) = getCart ''cart_b'' two_carts
   \<and> map item_id (getItems ''cart_b'' (deleteExpiredCarts 1000 two_carts)) = [''item_b'']"
proof -
  let ?a = "\<lparr>cart_id = ''cart_a'', cart_storeId = ''s1'', cart_userId = None,
          cart_sessionId = Some ''sess_a'', cart_totalPrice = 10, cart_totalTax = 0,
          cart_totalShipping = 0, cart_couponCode = None, cart_couponDiscount = 0,
          cart_expiresAt = Some 500, cart_createdAt = 1, cart_updatedAt = 2\<rparr>"
  let ?b = "\<lparr>cart_id = ''cart_b'', cart_storeId = ''s1'', cart_userId = None,
          cart_sessionId = Some ''sess_b'', cart_totalPrice = 5, cart_totalTax = 0,
          cart_totalShipping = 0, cart_couponCode = None, cart_couponDiscount = 0,
          cart_expiresAt = Some 5000, cart_createdAt = 3, cart_updatedAt = 4\<rparr>"
  have d: "distinct (map cart_id (carts two_carts))"
    by (simp add: two_carts_def)
  have cs: "carts two_carts = [?a, ?b]"
    by (simp add: two_carts_def)
  have e: "cart_expired 1000 ?a" "\<not> cart_expired 1000 ?b"
    by (simp_all add: cart_expired_def)
  note t = deleteExpiredCarts_purges [OF d, of 1000]
  have "carts (deleteExpiredCarts 1000 two_carts) = [?b]"
    using t e by (simp add: cs)
  moreover have "getCart ''cart_a'' (deleteExpiredCarts 1000 two_carts) = None
      \<and> getItems ''cart_a'' (deleteExpiredCarts 1000 two_carts) = []"
    using t e(1) by (simp add: cs)
  moreover have "getCart ''cart_b'' (deleteExpiredCarts 1000 two_carts) = Some ?b
      \<and> getItems ''cart_b'' (deleteExpiredCarts 1000 two_carts) = getItems ''cart_b'' two_carts"
    using t e(2) by (simp add: cs)
  moreover have "getCart ''cart_b'' two_carts = Some ?b"
    by (simp add: getCart_def sql_first_def two_carts_def)
  moreover have "map item_id (getItems ''cart_b'' two_carts) = [''item_b'']"
    by (simp add: getItems_def two_carts_def)
  ultimately show ?thesis
    using d e by (simp add: cs)
qed

end
